theory Spec2Isabelle
  imports Complex_Main
begin

section \<open>The LWE challenge driver of \<open>lwe_challenge.py\<close>\<close>

text \<open>
  The development embeds \<open>lwe_kernel\<close> of \<open>src/lwe_challenge.py\<close>: the blocksize
  schedule, the two forecasting closures \<open>attainable_SVP_dim\<close> and
  \<open>expected_successful_SVP_dim\<close>, the lookahead over the next two blocksizes, the
  enlarged SVP call and the loop that ends with a solution file or an exception.

  Conventions.
  \<^item> Python \<open>int\<close> is \<open>int\<close>. Python \<open>float\<close> is idealised as \<open>real\<close>: rounding is not
    modelled, comparisons and arithmetic are exact.
  \<^item> An exception is the \<open>Inl\<close> branch of a sum; a function whose source loop has no
    bound returns an \<open>option\<close>, \<open>None\<close> standing for a run that never ends.
  \<^item> The module uses \<open>print(..., end='')\<close> without a \<open>__future__\<close> import, which only
    Python 3 parses; Python 3 semantics are used throughout (\<open>range\<close> is a lazy object,
    \<open>/\<close> is true division).
  \<^item> fpylll and g6k are not part of the source. Their operations are the fields of the
    record \<open>env\<close> below and are taken as total functions of an abstract world \<open>'w\<close>
    (the Siever object with its basis, and the wall clock).
\<close>

subsection \<open>Exceptions and numeric primitives\<close>

datatype error =
    TypeError string
  | ValueError string
  | NameError string
  | SyntaxError string
  | AttributeError string
  | UnboundLocalError string
  | KeyError int
  | ZeroDivisionError

text \<open>\<open>int(x)\<close> on a float truncates towards zero.\<close>

definition py_int :: "real \<Rightarrow> int" where
  "py_int x = (if 0 \<le> x then \<lfloor>x\<rfloor> else \<lceil>x\<rceil>)"

text \<open>\<open>math.log(x)\<close>: natural logarithm, \<open>ValueError\<close> outside the positive reals.\<close>

definition py_log :: "real \<Rightarrow> error + real" where
  "py_log x = (if 0 < x then Inr (ln x) else Inl (ValueError ''math domain error''))"

text \<open>\<open>a / b\<close> on floats.\<close>

definition py_div :: "real \<Rightarrow> real \<Rightarrow> error + real" where
  "py_div a b = (if b = 0 then Inl ZeroDivisionError else Inr (a / b))"

text \<open>\<open>list(range(a, b, s))\<close> for \<open>s \<noteq> 0\<close> (the source only uses positive literal steps
  in its own calls).\<close>

definition range_len :: "int \<Rightarrow> int \<Rightarrow> int \<Rightarrow> nat" where
  "range_len a b s =
     (if 0 < s then nat ((b - a + s - 1) div s)
      else if s < 0 then nat ((a - b - s - 1) div (- s))
      else 0)"

definition list_range :: "int \<Rightarrow> int \<Rightarrow> int \<Rightarrow> int list" where
  "list_range a b s = map (\<lambda>i. a + int i * s) [0..<range_len a b s]"

subsection \<open>Line 132: the target norm\<close>

text \<open>\<open>target_norm = goal_margin * (alpha*q)**2 * m + 1\<close>, with \<open>q\<close> and \<open>m\<close> integers.\<close>

definition target_norm :: "real \<Rightarrow> real \<Rightarrow> int \<Rightarrow> int \<Rightarrow> real" where
  "target_norm goal_margin alpha q m = goal_margin * (alpha * of_int q)\<^sup>2 * of_int m + 1"

subsection \<open>Lines 199-205: the attainable SVP dimension\<close>

text \<open>
  The name \<open>params\<close> of \<open>lwe_kernel\<close> is first bound to the run configuration (a g6k
  \<open>SieverParams\<close>, line 83) and rebound at line 242 to an fpylll \<open>BKZ.Param\<close>. The
  closures read \<open>params.threads\<close> through that name when they are called, so the model
  passes them the object the name holds at that moment. An fpylll \<open>BKZ.Param\<close> carries
  \<open>block_size\<close>, \<open>max_loops\<close> and the other BKZ fields and has no attribute
  \<open>threads\<close>.
\<close>

datatype params_obj =
    SieverParams (threads: int)
  | BKZParam (block_size: int) (max_loops: int)

fun read_threads :: "params_obj \<Rightarrow> error + int" where
  "read_threads (SieverParams t) = Inr t"
| "read_threads (BKZParam b l) = Inl (AttributeError ''threads'')"

definition expo :: real where
  "expo = 292 / 1000"

definition attainable_SVP_dim :: "real \<Rightarrow> params_obj \<Rightarrow> real \<Rightarrow> error + int" where
  "attainable_SVP_dim svp_bkz_time_factor params T_BKZ =
     (let svp_Tmax = svp_bkz_time_factor * T_BKZ in
      case read_threads params of
        Inl e \<Rightarrow> Inl e
      | Inr t \<Rightarrow>
          (case py_log (svp_Tmax * of_int t) of
             Inl e \<Rightarrow> Inl e
           | Inr l \<Rightarrow> Inr (py_int (58 + 6 + (1 / expo) * l / ln 2))))"

subsection \<open>Lines 207-214: the expected successful SVP dimension\<close>

text \<open>
  \<open>for n_expected in range(2, d): ... if c: break\<close> followed by \<open>return n_expected\<close>.
  The third argument is the binding of the loop variable so far: \<open>None\<close> while it is
  unbound. A test that raises ends the loop with the exception.
\<close>

fun for_break :: "(int \<Rightarrow> error + bool) \<Rightarrow> int list \<Rightarrow> int option \<Rightarrow> error + int option" where
  "for_break c [] v = Inr v"
| "for_break c (k # ks) v =
     (case c k of
        Inl e \<Rightarrow> Inl e
      | Inr True \<Rightarrow> Inr (Some k)
      | Inr False \<Rightarrow> for_break c ks (Some k))"

text \<open>The test of line 211-212 at candidate \<open>k\<close>; \<open>rr[d-k:]\<close> has \<open>d - k \<ge> 1\<close> in the loop.\<close>

definition success_test ::
  "(real list \<Rightarrow> real) \<Rightarrow> real \<Rightarrow> real \<Rightarrow> int \<Rightarrow> real list \<Rightarrow> int \<Rightarrow> error + bool" where
  "success_test gaussian_heuristic tn goal_margin d rr k =
     (case py_div tn goal_margin of
        Inl e \<Rightarrow> Inl e
      | Inr c \<Rightarrow>
          (let x = c * of_int k / (1 * of_int d) in
           Inr (4 / 3 * gaussian_heuristic (drop (nat (d - k)) rr) > x)))"

definition expected_successful_SVP_dim ::
  "(real list \<Rightarrow> real) \<Rightarrow> real \<Rightarrow> real \<Rightarrow> int \<Rightarrow> real list \<Rightarrow> error + int" where
  "expected_successful_SVP_dim gaussian_heuristic tn goal_margin d rr =
     (case for_break (success_test gaussian_heuristic tn goal_margin d rr) [2..d - 1] None of
        Inl e \<Rightarrow> Inl e
      | Inr None \<Rightarrow> Inl (UnboundLocalError ''n_expected'')
      | Inr (Some k) \<Rightarrow> Inr k)"

subsection \<open>Lines 134-137: the blocksize schedule\<close>

text \<open>
  With an explicit specification the source evaluates
  \<open>list(range(10, 40)) + eval("range(%s)" % re.sub(":", ",", blocksizes))\<close>.
  \<open>re.sub\<close> replaces every colon by a comma. \<open>eval\<close> is modelled on the documented
  format only, one to three decimal integer literals separated by commas; on any other
  text \<open>eval_range\<close> is \<open>None\<close> (outside the model). A Python 3 decimal literal is
  either all zeros or starts with a non-zero digit; digits after a leading zero are a
  \<open>SyntaxError\<close>, raised when the text is compiled and so before any argument is
  evaluated. In Python 3 the value of a \<open>range(...)\<close> expression is a range object,
  not a list.
\<close>

datatype pyval = PyList "int list" | PyRange int int int

definition re_sub_colon :: "string \<Rightarrow> string" where
  "re_sub_colon s = map (\<lambda>c. if c = CHR '':'' then CHR '','' else c) s"

fun split_at :: "char \<Rightarrow> string \<Rightarrow> string list" where
  "split_at c [] = [[]]"
| "split_at c (x # xs) =
     (if x = c then [] # split_at c xs
      else (case split_at c xs of [] \<Rightarrow> [[x]] | y # ys \<Rightarrow> (x # y) # ys))"

fun parse_digits :: "string \<Rightarrow> nat \<Rightarrow> nat option" where
  "parse_digits [] acc = Some acc"
| "parse_digits (c # cs) acc =
     (let v = (of_char c :: nat) in
      if 48 \<le> v \<and> v \<le> 57 then parse_digits cs (10 * acc + (v - 48)) else None)"

definition leading_zero :: "string \<Rightarrow> bool" where
  "leading_zero ds =
     (case ds of [] \<Rightarrow> False | c # cs \<Rightarrow> c = CHR ''0'' \<and> list_ex (\<lambda>x. x \<noteq> CHR ''0'') cs)"

text \<open>
  One argument: an optional minus sign and decimal digits. \<open>None\<close>: not of that form;
  \<open>Some (Inl e)\<close>: of that form and refused by the compiler.
\<close>

definition parse_int_lit :: "string \<Rightarrow> (error + int) option" where
  "parse_int_lit s =
     (case s of
        [] \<Rightarrow> None
      | c # cs \<Rightarrow>
          (let negative = (c = CHR ''-'');
               ds = (if negative then cs else s)
           in if ds = [] then None
              else
                (case parse_digits ds 0 of
                   None \<Rightarrow> None
                 | Some n \<Rightarrow>
                     if leading_zero ds
                     then Some (Inl (SyntaxError
                            ''leading zeros in decimal integer literals are not permitted''))
                     else Some (Inr (if negative then - int n else int n)))))"

text \<open>All arguments: outside the model if one is, else the first refusal, else the values.\<close>

fun parse_args :: "(error + int) option list \<Rightarrow> (error + int list) option" where
  "parse_args [] = Some (Inr [])"
| "parse_args (None # ps) = None"
| "parse_args (Some (Inl e) # ps) = (case parse_args ps of None \<Rightarrow> None | Some r \<Rightarrow> Some (Inl e))"
| "parse_args (Some (Inr n) # ps) =
     (case parse_args ps of
        None \<Rightarrow> None
      | Some (Inl e) \<Rightarrow> Some (Inl e)
      | Some (Inr ns) \<Rightarrow> Some (Inr (n # ns)))"

definition eval_range :: "string \<Rightarrow> (error + pyval) option" where
  "eval_range args =
     (case parse_args (map parse_int_lit (split_at CHR '','' args)) of
        None \<Rightarrow> None
      | Some (Inl e) \<Rightarrow> Some (Inl e)
      | Some (Inr [b]) \<Rightarrow> Some (Inr (PyRange 0 b 1))
      | Some (Inr [a, b]) \<Rightarrow> Some (Inr (PyRange a b 1))
      | Some (Inr [a, b, s]) \<Rightarrow>
          if s = 0 then Some (Inl (ValueError ''range() arg 3 must not be zero''))
          else Some (Inr (PyRange a b s))
      | Some (Inr _) \<Rightarrow> None)"

text \<open>\<open>xs + v\<close> for a list \<open>xs\<close>: Python 3 concatenates lists only.\<close>

fun list_add :: "int list \<Rightarrow> pyval \<Rightarrow> error + int list" where
  "list_add xs (PyList ys) = Inr (xs @ ys)"
| "list_add xs (PyRange a b s) = Inl (TypeError ''can only concatenate list (not range) to list'')"

definition explicit_blocksizes :: "string \<Rightarrow> (error + int list) option" where
  "explicit_blocksizes spec =
     (case eval_range (re_sub_colon spec) of
        None \<Rightarrow> None
      | Some (Inl e) \<Rightarrow> Some (Inl e)
      | Some (Inr v) \<Rightarrow> Some (list_add (list_range 10 40 1) v))"

definition default_blocksizes :: "int \<Rightarrow> int list" where
  "default_blocksizes b =
     list_range 10 50 1 @ list_range 70 (b - 15) 10 @ [b - 15] @ list_range (b - 13) (b + 25) 2"

definition build_schedule :: "string option \<Rightarrow> int \<Rightarrow> (error + int list) option" where
  "build_schedule blocksizes b =
     (case blocksizes of
        Some spec \<Rightarrow> explicit_blocksizes spec
      | None \<Rightarrow> Some (Inr (default_blocksizes b)))"

subsection \<open>The external operations and the state of a run\<close>

text \<open>
  What \<open>lwe_kernel\<close> calls outside the source, for one fixed configuration of the
  pass-through options (\<open>bkz/jump\<close>, \<open>bkz/extra_dim4free\<close>, \<open>bkz/dim4free_fun\<close>, the
  \<open>pump/\<close> options, the tracer). The world \<open>'w\<close> holds the Siever object and the clock;
  every operation that mutates the basis or takes time maps a world to the next one.
  \<^item> \<open>now\<close>: \<open>time.time()\<close>.
  \<^item> \<open>load_lwe_challenge\<close>: the pair \<open>(A.ncols, q)\<close> of the loaded instance.
  \<^item> \<open>gsa_params\<close>: the triple \<open>(b, s, m)\<close>, or \<open>None\<close> when the estimator has no
    parameters (the unpacking at lines 119 and 126 then raises \<open>TypeError\<close>).
  \<^item> \<open>siever\<close>: \<open>Siever(primal_lattice_basis(A, c, q, m=m), params)\<close> for the instance
    \<open>(n, alpha)\<close>.
  \<^item> \<open>get_r E w i\<close>: \<open>g6k.M.get_r(i, i)\<close>; \<open>g6k.M.r()\<close> is the list of these for
    \<open>i\<close> in \<open>range(d)\<close>.
  \<^item> \<open>fpylll_tour\<close>, \<open>pnj_tour\<close>: one BKZ tour below, respectively from, the crossover.
  \<^item> \<open>simulate\<close>: the first component of fpylll's \<open>simulate(rr, params)\<close>.
  \<^item> \<open>pump E llb k f goal_r0\<close>: \<open>pump(g6k, tracer, llb, k, f, goal_r0=...)\<close>.
  \<^item> \<open>row0\<close>: \<open>str(g6k.M.B[0])\<close>.
\<close>

record 'w env =
  now :: "'w \<Rightarrow> real"
  load_lwe_challenge :: "int \<Rightarrow> real \<Rightarrow> int \<times> int"
  gsa_params :: "int \<Rightarrow> real \<Rightarrow> int \<Rightarrow> bool \<Rightarrow> (int \<times> int \<times> int) option"
  siever :: "int \<Rightarrow> real \<Rightarrow> int \<Rightarrow> params_obj \<Rightarrow> 'w"
  full_n :: "'w \<Rightarrow> int"
  lll :: "'w \<Rightarrow> 'w"
  fpylll_tour :: "int \<Rightarrow> 'w \<Rightarrow> 'w"
  pnj_tour :: "int \<Rightarrow> real \<Rightarrow> 'w \<Rightarrow> 'w"
  get_r :: "'w \<Rightarrow> int \<Rightarrow> real"
  simulate :: "real list \<Rightarrow> params_obj \<Rightarrow> real list"
  gaussian_heuristic :: "real list \<Rightarrow> real"
  pump :: "int \<Rightarrow> int \<Rightarrow> int \<Rightarrow> real \<Rightarrow> 'w \<Rightarrow> 'w"
  row0 :: "'w \<Rightarrow> string"

text \<open>The entries of \<open>params\<close> that the kernel itself reads (lines 86-107).\<close>

record config =
  bkz_fpylll_crossover :: int
  bkz_blocksizes :: "string option"
  bkz_tours :: int
  lwe_svp_bkz_time_factor :: real
  lwe_goal_margin :: real
  lwe_alpha :: real
  lwe_m :: "int option"
  verbose :: bool
  threads :: int

text \<open>
  The locals of \<open>lwe_kernel\<close> that change while the loop runs. \<open>params\<close> is the object
  the name \<open>params\<close> is bound to. \<open>T_blocksizes\<close> is the one dict created at line 156;
  line 238, \<open>temp_T_blocksizes = T_blocksizes\<close>, binds a second name to the same
  dict, so a store through either name is a store into this field.
\<close>

record 'w kstate =
  g6k :: 'w
  params :: params_obj
  T0_BKZ :: real
  T_blocksizes :: "int \<rightharpoonup> real"

definition profile :: "'w env \<Rightarrow> int \<Rightarrow> 'w \<Rightarrow> real list" where
  "profile E d w = map (get_r E w) [0..d - 1]"

subsection \<open>Lines 227-265: the lookahead\<close>

text \<open>\<open>blocksizes.index(blocksize)\<close>: the first position holding the value.\<close>

fun index_of :: "int list \<Rightarrow> int \<Rightarrow> nat option" where
  "index_of [] x = None"
| "index_of (y # ys) x = (if y = x then Some 0 else map_option Suc (index_of ys x))"

text \<open>The variables of the first loop (lines 231-253), with the kernel state they share.\<close>

record 'w look =
  kst :: "'w kstate"
  rr :: "real list"
  extra_T_BKZ :: real
  previous_blocksize :: int
  future_rrs :: "real list list"
  extra_T_BKZs :: "real list"

fun simulate_tours :: "'w env \<Rightarrow> int list \<Rightarrow> 'w look \<Rightarrow> error + 'w look" where
  "simulate_tours E [] s = Inr s"
| "simulate_tours E (rblock # rest) s =
     (let params1 = BKZParam rblock 1;
          rr1 = simulate E (rr s) params1;
          future1 = future_rrs s @ [rr1]
      in case T_blocksizes (kst s) (previous_blocksize s) of
           None \<Rightarrow> Inl (KeyError (previous_blocksize s))
         | Some T_prev \<Rightarrow>
             (let T_rblock_BKZ = T_prev * 2 powr (expo * of_int (rblock - previous_blocksize s));
                  table1 = (T_blocksizes (kst s))(rblock \<mapsto> T_rblock_BKZ);
                  extra1 = extra_T_BKZ s + T_rblock_BKZ
              in simulate_tours E rest
                   (s\<lparr>kst := (kst s)\<lparr>params := params1, T_blocksizes := table1\<rparr>,
                      rr := rr1,
                      extra_T_BKZ := extra1,
                      previous_blocksize := rblock,
                      future_rrs := future1,
                      extra_T_BKZs := extra_T_BKZs s @ [extra1]\<rparr>)))"

text \<open>
  The second loop (lines 255-265). \<open>esd\<close> is \<open>expected_successful_SVP_dim\<close> on a given
  profile, \<open>p\<close> the object bound to \<open>params\<close> when the loop runs, \<open>cur\<close> is
  \<open>current_n_expected\<close> and the last argument is \<open>more_BKZ\<close>.
\<close>

fun more_BKZ_loop ::
  "(real list \<Rightarrow> error + int) \<Rightarrow> params_obj \<Rightarrow> int \<Rightarrow> (real list \<times> real) list \<Rightarrow> bool
    \<Rightarrow> error + bool" where
  "more_BKZ_loop esd p cur [] more_BKZ = Inr more_BKZ"
| "more_BKZ_loop esd p cur ((rr1, extra) # rest) more_BKZ =
     (case esd rr1 of
        Inl e \<Rightarrow> Inl e
      | Inr potential_n_expected \<Rightarrow>
          (let svp_dim_dec = potential_n_expected - cur in
           if svp_dim_dec \<ge> 0 then more_BKZ_loop esd p cur rest more_BKZ
           else
             (let time_SVP_current = 2 powr (expo * of_int (cur - 64)) in
              case read_threads p of
                Inl e \<Rightarrow> Inl e
              | Inr t \<Rightarrow>
                  (case py_div time_SVP_current (of_int t) of
                     Inl e \<Rightarrow> Inl e
                   | Inr time_SVP \<Rightarrow>
                       if extra < (1 - 2 powr (expo * of_int svp_dim_dec)) * time_SVP
                       then more_BKZ_loop esd p cur rest True
                       else more_BKZ_loop esd p cur rest more_BKZ))))"

definition lookahead ::
  "'w env \<Rightarrow> config \<Rightarrow> real \<Rightarrow> int \<Rightarrow> int list \<Rightarrow> int \<Rightarrow> int \<Rightarrow> 'w kstate
    \<Rightarrow> error + bool \<times> 'w kstate" where
  "lookahead E cfg tn d blocksizes blocksize current_n_expected st =
     (case index_of blocksizes blocksize of
        None \<Rightarrow> Inl (ValueError ''value is not in list'')
      | Some ind \<Rightarrow>
          (let remaining_blocksizes = take 2 (drop (ind + 1) blocksizes) in
           case simulate_tours E remaining_blocksizes
                  \<lparr>kst = st, rr = profile E d (g6k st), extra_T_BKZ = 0,
                   previous_blocksize = blocksize, future_rrs = [], extra_T_BKZs = []\<rparr> of
             Inl e \<Rightarrow> Inl e
           | Inr s \<Rightarrow>
               (case more_BKZ_loop
                       (expected_successful_SVP_dim (gaussian_heuristic E) tn (lwe_goal_margin cfg) d)
                       (params (kst s)) current_n_expected
                       (zip (future_rrs s) (extra_T_BKZs s)) False of
                  Inl e \<Rightarrow> Inl e
                | Inr more_BKZ \<Rightarrow> Inr (more_BKZ, kst s))))"

subsection \<open>Lines 270-293: the enlarged SVP call\<close>

text \<open>
  \<open>window_test\<close> is the condition of the \<open>while\<close> loop of lines 274-276 at a given
  \<open>llb\<close>. The loop has no bound in the source, so the model is a partial function:
  \<open>None\<close> is a loop that never ends. (The loop is reached only after
  \<open>expected_successful_SVP_dim\<close> has returned, hence with \<open>d \<ge> 3\<close>, and \<open>1.*d\<close> is
  not zero.)
\<close>

definition window_test :: "'w env \<Rightarrow> 'w \<Rightarrow> real \<Rightarrow> int \<Rightarrow> int \<Rightarrow> bool" where
  "window_test E w tn d llb =
     (gaussian_heuristic E (map (get_r E w) [llb..d - 1])
        < tn * of_int (d - llb) / (1 * of_int d))"

partial_function (option) shrink_llb :: "'w env \<Rightarrow> 'w \<Rightarrow> real \<Rightarrow> int \<Rightarrow> int \<Rightarrow> int option" where
  "shrink_llb E w tn d llb =
     (if window_test E w tn d llb then shrink_llb E w tn d (llb - 1) else Some llb)"

text \<open>
  Line 280 formats \<open>svp_Tmax\<close>. The only assignment to that name is line 202, inside
  \<open>attainable_SVP_dim\<close>, where it is a local of the closure; in the body of
  \<open>lwe_kernel\<close> the name is therefore a global, the module defines none, and the read
  raises \<open>NameError\<close>. The other four operands of the format are bound.
\<close>

definition larger_SVP ::
  "'w env \<Rightarrow> config \<Rightarrow> real \<Rightarrow> int \<Rightarrow> int \<Rightarrow> int \<Rightarrow> 'w kstate \<Rightarrow> (error + 'w kstate) option" where
  "larger_SVP E cfg tn d blocksize current_n_max st =
     (let n_max = current_n_max + 1 in
      case shrink_llb E (g6k st) tn d (d - blocksize) of
        None \<Rightarrow> None
      | Some llb \<Rightarrow>
          (let f = d - llb - n_max in
           if verbose cfg then Some (Inl (NameError ''svp_Tmax''))
           else
             (let w1 = pump E llb (d - llb) f (tn * of_int (d - llb) / (1 * of_int d)) (g6k st);
                  w2 = lll E w1
              in Some (Inr (st\<lparr>g6k := w2, T0_BKZ := now E w2\<rparr>)))))"

subsection \<open>Lines 159-293: one tour\<close>

text \<open>How the body of the inner \<open>for\<close> loop ends: \<open>break\<close>, or on to the next tour.\<close>

datatype ctl = Break | Next

definition tour ::
  "'w env \<Rightarrow> config \<Rightarrow> real \<Rightarrow> int \<Rightarrow> int list \<Rightarrow> int \<Rightarrow> 'w kstate
    \<Rightarrow> (error + ctl \<times> 'w kstate) option" where
  "tour E cfg tn d blocksizes blocksize st =
     (let T0_this_blocksize = now E (g6k st);
          w1 = (if blocksize < bkz_fpylll_crossover cfg then fpylll_tour E blocksize (g6k st)
                else pnj_tour E blocksize tn (g6k st));
          T_BKZ = now E w1 - T0_BKZ st;
          table1 = (T_blocksizes st)(blocksize \<mapsto> now E w1 - T0_this_blocksize);
          w2 = lll E w1;
          st1 = st\<lparr>g6k := w2, T_blocksizes := table1\<rparr>
      in if get_r E w2 0 \<le> tn then Some (Inr (Break, st1))
         else
           (case attainable_SVP_dim (lwe_svp_bkz_time_factor cfg) (params st1) T_BKZ of
              Inl e \<Rightarrow> Some (Inl e)
            | Inr current_n_max \<Rightarrow>
                (case expected_successful_SVP_dim (gaussian_heuristic E) tn (lwe_goal_margin cfg) d
                        (profile E d w2) of
                   Inl e \<Rightarrow> Some (Inl e)
                 | Inr current_n_expected \<Rightarrow>
                     if current_n_expected \<ge> current_n_max - 1 then Some (Inr (Next, st1))
                     else
                       (case lookahead E cfg tn d blocksizes blocksize current_n_expected st1 of
                          Inl e \<Rightarrow> Some (Inl e)
                        | Inr (more_BKZ, st2) \<Rightarrow>
                            if more_BKZ then Some (Inr (Next, st2))
                            else
                              (case larger_SVP E cfg tn d blocksize current_n_max st2 of
                                 None \<Rightarrow> None
                               | Some (Inl e) \<Rightarrow> Some (Inl e)
                               | Some (Inr st3) \<Rightarrow>
                                   Some (Inr (if get_r E (g6k st3) 0 \<le> tn then Break else Next,
                                              st3)))))))"

subsection \<open>Lines 157-305: the two loops and the two exits\<close>

text \<open>\<open>for tt in range(tours)\<close>: the state when the loop is left, by \<open>break\<close> or at its end.\<close>

fun tours_loop ::
  "'w env \<Rightarrow> config \<Rightarrow> real \<Rightarrow> int \<Rightarrow> int list \<Rightarrow> int \<Rightarrow> nat \<Rightarrow> 'w kstate
    \<Rightarrow> (error + 'w kstate) option" where
  "tours_loop E cfg tn d blocksizes blocksize 0 st = Some (Inr st)"
| "tours_loop E cfg tn d blocksizes blocksize (Suc k) st =
     (case tour E cfg tn d blocksizes blocksize st of
        None \<Rightarrow> None
      | Some (Inl e) \<Rightarrow> Some (Inl e)
      | Some (Inr (Break, st1)) \<Rightarrow> Some (Inr st1)
      | Some (Inr (Next, st1)) \<Rightarrow> tours_loop E cfg tn d blocksizes blocksize k st1)"

text \<open>\<open>'%03d' % i\<close>: decimal, padded with zeros to width three, the sign included.\<close>

fun digits :: "nat \<Rightarrow> string" where
  "digits n =
     (if n < 10 then [''0123456789'' ! n]
      else digits (n div 10) @ [''0123456789'' ! (n mod 10)])"

declare digits.simps [simp del]

definition zero_pad :: "nat \<Rightarrow> string \<Rightarrow> string" where
  "zero_pad w s = replicate (w - length s) CHR ''0'' @ s"

definition fmt_03d :: "int \<Rightarrow> string" where
  "fmt_03d i =
     (if i < 0 then CHR ''-'' # zero_pad 2 (digits (nat (- i))) else zero_pad 3 (digits (nat i)))"

text \<open>Lines 298-299; \<open>alpha'\<close> is the source's \<open>alpha_\<close>.\<close>

definition solution_filename :: "int \<Rightarrow> real \<Rightarrow> string" where
  "solution_filename n alpha =
     (let alpha' = py_int (alpha * 1000) in
      ''lwechallenge/'' @ fmt_03d n @ ''-'' @ fmt_03d alpha' @ ''-solution.txt'')"

text \<open>
  A normal return of \<open>lwe_kernel\<close> (line 303): the file written at lines 300-302, as
  name and contents, and the state at that moment.
\<close>

record 'w solved =
  filename :: string
  written :: string
  final :: "'w kstate"

text \<open>
  \<open>for blocksize in blocksizes\<close>, from the blocksizes still to come, with the test of
  line 295 after each inner loop and the \<open>raise\<close> of line 305 after the last.
\<close>

fun blocks_loop ::
  "'w env \<Rightarrow> config \<Rightarrow> int \<Rightarrow> real \<Rightarrow> int \<Rightarrow> int list \<Rightarrow> int list \<Rightarrow> 'w kstate
    \<Rightarrow> (error + 'w solved) option" where
  "blocks_loop E cfg n tn d blocksizes [] st = Some (Inl (ValueError ''No solution found.''))"
| "blocks_loop E cfg n tn d blocksizes (blocksize # rest) st =
     (case tours_loop E cfg tn d blocksizes blocksize (nat (bkz_tours cfg)) st of
        None \<Rightarrow> None
      | Some (Inl e) \<Rightarrow> Some (Inl e)
      | Some (Inr st1) \<Rightarrow>
          if get_r E (g6k st1) 0 \<le> tn
          then Some (Inr \<lparr>filename = solution_filename n (lwe_alpha cfg),
                          written = row0 E (g6k st1), final = st1\<rparr>)
          else blocks_loop E cfg n tn d blocksizes rest st1)"

subsection \<open>Lines 78-156: what is fixed before the loop\<close>

record 'w run =
  run_target_norm :: real
  run_blocksizes :: "int list"
  run_d :: int
  run_start :: "'w kstate"

text \<open>
  \<open>None\<close> only when the explicit blocksize text is outside the modelled fragment of
  \<open>eval\<close>.
\<close>

definition prepare :: "'w env \<Rightarrow> config \<Rightarrow> int \<Rightarrow> (error + 'w run) option" where
  "prepare E cfg n =
     (let decouple = lwe_svp_bkz_time_factor cfg > 0;
          (ncols, q) = load_lwe_challenge E n (lwe_alpha cfg)
      in case gsa_params E ncols (lwe_alpha cfg) q decouple of
           None \<Rightarrow> Some (Inl (TypeError ''No winning parameters.''))
         | Some (b, s, m_est) \<Rightarrow>
             (let m = (case lwe_m cfg of None \<Rightarrow> m_est | Some m0 \<Rightarrow> m0);
                  tn = target_norm (lwe_goal_margin cfg) (lwe_alpha cfg) q m
              in case build_schedule (bkz_blocksizes cfg) b of
                   None \<Rightarrow> None
                 | Some (Inl e) \<Rightarrow> Some (Inl e)
                 | Some (Inr blocksizes) \<Rightarrow>
                     (let p = SieverParams (threads cfg);
                          w0 = siever E n (lwe_alpha cfg) m p;
                          d = full_n E w0;
                          w1 = lll E w0
                      in Some (Inr \<lparr>run_target_norm = tn, run_blocksizes = blocksizes, run_d = d,
                                     run_start = \<lparr>g6k = w1, params = p, T0_BKZ = now E w1,
                                                  T_blocksizes = Map.empty\<rparr>\<rparr>))))"

definition lwe_kernel :: "'w env \<Rightarrow> config \<Rightarrow> int \<Rightarrow> (error + 'w solved) option" where
  "lwe_kernel E cfg n =
     (case prepare E cfg n of
        None \<Rightarrow> None
      | Some (Inl e) \<Rightarrow> Some (Inl e)
      | Some (Inr R) \<Rightarrow>
          blocks_loop E cfg n (run_target_norm R) (run_d R) (run_blocksizes R)
            (run_blocksizes R) (run_start R))"

subsection \<open>The success condition in the words of the specification\<close>

text \<open>
  The condition the specification gives for a candidate dimension \<open>k\<close>:
  \<open>(4/3) * gaussian_heuristic(tail of length k) > (target_norm / goal_margin) * k / d\<close>,
  the tail of length \<open>k\<close> of a profile of length \<open>d\<close> being what is left after its
  first \<open>d - k\<close> entries.
\<close>

definition success_condition ::
  "(real list \<Rightarrow> real) \<Rightarrow> real \<Rightarrow> real \<Rightarrow> int \<Rightarrow> real list \<Rightarrow> int \<Rightarrow> bool" where
  "success_condition gh tn gm d prof k =
     (4 / 3 * gh (drop (nat (d - k)) prof) > (tn / gm) * of_int k / of_int d)"

subsection \<open>A small world for concrete runs\<close>

text \<open>
  Concrete inputs need concrete external operations. The stand-in for
  \<open>gaussian_heuristic\<close> is the mean of the slice. The toy world is a clock and a
  profile: a tour takes one second and leaves the profile alone, LLL takes no time, the
  simulator answers with a fixed profile and the pump leaves a fixed profile behind.
\<close>

definition mean_gh :: "real list \<Rightarrow> real" where
  "mean_gh xs = sum_list xs / real (length xs)"

record toy =
  clock :: real
  gso :: "real list"

definition toy_env ::
  "(int \<times> int \<times> int) option \<Rightarrow> real list \<Rightarrow> real list \<Rightarrow> real list \<Rightarrow> toy env" where
  "toy_env est start simulated pumped =
     \<lparr>now = clock,
      load_lwe_challenge = (\<lambda>n a. (n, 11)),
      gsa_params = (\<lambda>n a q decouple. est),
      siever = (\<lambda>n a m p. \<lparr>clock = 0, gso = start\<rparr>),
      full_n = (\<lambda>w. int (length (gso w))),
      lll = (\<lambda>w. w),
      fpylll_tour = (\<lambda>b w. w\<lparr>clock := clock w + 1\<rparr>),
      pnj_tour = (\<lambda>b g w. w\<lparr>clock := clock w + 1\<rparr>),
      get_r = (\<lambda>w i. if 0 \<le> i \<and> nat i < length (gso w) then gso w ! nat i else 0),
      simulate = (\<lambda>rr p. simulated),
      gaussian_heuristic = mean_gh,
      pump = (\<lambda>llb k f g w. \<lparr>clock = clock w + 1, gso = pumped\<rparr>),
      row0 = (\<lambda>w. ''[1 0 0]'')\<rparr>"

text \<open>The defaults of \<open>lwe()\<close> (lines 316-328) that the kernel reads, with one thread.\<close>

definition toy_config :: config where
  "toy_config =
     \<lparr>bkz_fpylll_crossover = 51, bkz_blocksizes = None, bkz_tours = 1,
      lwe_svp_bkz_time_factor = 1, lwe_goal_margin = 3 / 2, lwe_alpha = 5 / 1000,
      lwe_m = None, verbose = True, threads = 1\<rparr>"

text \<open>
  The profiles of the concrete runs, all of dimension twelve. On \<open>flat\<close> the success
  condition holds from the first candidate on; \<open>won\<close> starts at the goal length;
  \<open>steep\<close> needs dimension six and \<open>better\<close>, the profile the toy simulator predicts
  for it, only two. On \<open>ledge\<close> the window loop of line 275 takes one step and stops;
  on \<open>spike\<close> its condition holds at every \<open>llb\<close> from two downwards (the toy
  \<open>get_r\<close> answers zero outside the basis). \<open>toy_tn\<close> is the target norm of the toy instance (\<open>q = 11\<close>,
  \<open>m = 7\<close>) under \<open>toy_config\<close>; \<open>quiet_config\<close> is \<open>toy_config\<close> with \<open>verbose\<close> off.
\<close>

definition flat :: "real list" where
  "flat = [4, 4, 4, 4, 4, 4, 4, 4, 4, 4, 4, 4]"

definition won :: "real list" where
  "won = [1, 4, 4, 4, 4, 4, 4, 4, 4, 4, 4, 4]"

definition steep :: "real list" where
  "steep = [100, 100, 100, 100, 100, 100, 9, 0, 0, 0, 0, 0]"

definition better :: "real list" where
  "better = [100, 100, 100, 100, 100, 100, 0, 0, 0, 0, 3, 3]"


definition spike :: "real list" where
  "spike = [4, 0, 0, 0, 0, 0, 0, 0, 0, 0, 0, 0]"

definition toy_tn :: real where
  "toy_tn = target_norm (3 / 2) (5 / 1000) 11 7"

definition quiet_config :: config where
  "quiet_config = toy_config\<lparr>verbose := False\<rparr>"

text \<open>The state in which the loop starts on \<open>flat\<close> (the \<open>run_start\<close> of \<open>prepare\<close>).\<close>

definition start_flat :: "toy kstate" where
  "start_flat =
     \<lparr>g6k = \<lparr>clock = 0, gso = flat\<rparr>, params = SieverParams 1, T0_BKZ = 0,
      T_blocksizes = Map.empty\<rparr>"

text \<open>
  A state at line 227, after a tour at blocksize ten on \<open>steep\<close> that took
  \<open>2 powr (- 20)\<close> seconds.
\<close>

definition evaluate_steep :: "toy kstate" where
  "evaluate_steep =
     \<lparr>g6k = \<lparr>clock = 1, gso = steep\<rparr>, params = SieverParams 1, T0_BKZ = 0,
      T_blocksizes = [10 \<mapsto> 1 / 1048576]\<rparr>"

section \<open>Properties\<close>

subsection \<open>The target norm\<close>

text \<open>
  C9. For positive \<open>goal_margin\<close>, \<open>alpha\<close>, \<open>q\<close> and \<open>m\<close> the threshold of line 132 is
  \<open>goal_margin * (alpha * q)\<^sup>2 * m + 1\<close> and it is strictly positive.
\<close>

theorem target_norm_positive:
  "0 < goal_margin \<Longrightarrow> 0 < alpha \<Longrightarrow> 0 < q \<Longrightarrow> 0 < m \<Longrightarrow>
   target_norm goal_margin alpha q m = goal_margin * (alpha * of_int q)\<^sup>2 * of_int m + 1
   \<and> 0 < target_norm goal_margin alpha q m"
  unfolding target_norm_def by (simp add: add_pos_pos)

theorem target_norm_positive_witness:
  "target_norm (3 / 2) (5 / 1000) 11 7 = 3 / 2 * (5 / 1000 * of_int 11)\<^sup>2 * of_int 7 + 1
   \<and> 0 < target_norm (3 / 2) (5 / 1000) 11 7"
  using target_norm_positive [of "3 / 2" "5 / 1000" 11 7] by simp

subsection \<open>The attainable dimension\<close>

lemma py_int_mono: "x \<le> y \<Longrightarrow> py_int x \<le> py_int y"
  unfolding py_int_def
  by (auto simp: floor_mono ceiling_mono intro: order_trans[of "\<lceil>x\<rceil>" 0 "\<lfloor>y\<rfloor>"])

lemma expo_pos: "0 < expo"
  by (simp add: expo_def)

lemma attainable_closed_form:
  assumes "0 < f * T * of_int t"
  shows "attainable_SVP_dim f (SieverParams t) T
         = Inr (py_int (64 + (1 / expo) * log 2 (f * T * of_int t)))"
  using assms by (simp add: attainable_SVP_dim_def py_log_def log_def)

lemma attainable_mono_aux:
  assumes "0 < x" "x \<le> y"
  shows "py_int (64 + (1 / expo) * log 2 x) \<le> py_int (64 + (1 / expo) * log 2 y)"
proof -
  have "log 2 x \<le> log 2 y" using assms by simp
  then have "(1 / expo) * log 2 x \<le> (1 / expo) * log 2 y"
    using expo_pos by (simp add: divide_right_mono)
  then show ?thesis by (intro py_int_mono) simp
qed

lemma floor_bracket:
  fixes x :: real and n :: int
  assumes "0 < x" and n: "n = \<lfloor>64 + (1 / expo) * log 2 x\<rfloor>"
  shows "2 powr (expo * (of_int n - 64)) \<le> x \<and> x < 2 powr (expo * (of_int (n + 1) - 64))"
proof -
  define L where "L = log 2 x"
  have "of_int \<lfloor>64 + L / expo\<rfloor> \<le> 64 + L / expo"
    and "64 + L / expo < of_int \<lfloor>64 + L / expo\<rfloor> + 1"
    by linarith+
  moreover have "n = \<lfloor>64 + L / expo\<rfloor>" using n unfolding L_def by simp
  ultimately have lo: "of_int n \<le> 64 + L / expo" and hi: "64 + L / expo < of_int n + 1"
    by blast+
  have "of_int n - 64 \<le> L / expo" using lo by simp
  then have "(of_int n - 64) * expo \<le> L"
    using expo_pos by (simp add: pos_le_divide_eq)
  then have "2 powr (expo * (of_int n - 64)) \<le> 2 powr L"
    by (simp add: mult.commute)
  moreover have "L / expo < of_int n + 1 - 64" using hi by simp
  then have "L < (of_int n + 1 - 64) * expo"
    using expo_pos by (simp add: pos_divide_less_eq)
  then have "2 powr L < 2 powr (expo * (of_int (n + 1) - 64))"
    by (simp add: mult.commute)
  moreover have "2 powr L = x" using assms(1) unfolding L_def by simp
  ultimately show ?thesis by simp
qed

lemma log2_small: "log 2 (1 / 1048576) = - 20"
proof -
  have "(1048576::real) = 2 ^ 20" by simp
  then have "log 2 (1 / 1048576) = log 2 (1 / 2 ^ 20)" by simp
  also have "\<dots> = - log 2 (2 ^ 20)" by (simp add: log_divide del: power_numeral)
  also have "\<dots> = - 20" by (simp add: log_nat_power del: power_numeral)
  finally show ?thesis .
qed

text \<open>
  Where line 204 and the closed form with the floor agree. For \<open>f * T * t > 0\<close> the
  value is \<open>64 + (1/C) * log2(f * T * t)\<close> cut by \<open>int\<close>; from
  \<open>f * T * t \<ge> 2 powr (- 64 * C)\<close> on, where that number is not negative, this is its
  floor and, for a positive thread count, the largest integer dimension whose expected
  search time \<open>2 powr (C * (dim - 64)) / t\<close> does not exceed \<open>f * T\<close>. For positive
  \<open>f\<close> and \<open>t\<close> the value does not decrease when \<open>T\<close> or \<open>f\<close> grows.
\<close>

lemma attainable_SVP_dim_above_threshold:
  assumes pos: "0 < f * T * of_int t"
  shows "attainable_SVP_dim f (SieverParams t) T
           = Inr (py_int (64 + (1 / expo) * log 2 (f * T * of_int t)))
   \<and> (2 powr (- (64 * expo)) \<le> f * T * of_int t \<longrightarrow>
        attainable_SVP_dim f (SieverParams t) T
           = Inr \<lfloor>64 + (1 / expo) * log 2 (f * T * of_int t)\<rfloor>)
   \<and> (2 powr (- (64 * expo)) \<le> f * T * of_int t \<and> 0 < t \<longrightarrow>
        (\<exists>n. attainable_SVP_dim f (SieverParams t) T = Inr n
           \<and> 2 powr (expo * (of_int n - 64)) / of_int t \<le> f * T
           \<and> f * T < 2 powr (expo * (of_int (n + 1) - 64)) / of_int t))
   \<and> (0 < f \<and> 0 < t \<and> T \<le> T' \<and> f \<le> f' \<longrightarrow>
        (\<exists>a b. attainable_SVP_dim f (SieverParams t) T = Inr a
           \<and> attainable_SVP_dim f' (SieverParams t) T' = Inr b \<and> a \<le> b))"
proof -
  let ?x = "f * T * of_int t"
  let ?v = "64 + (1 / expo) * log 2 ?x"
  have cf: "attainable_SVP_dim f (SieverParams t) T = Inr (py_int ?v)"
    by (rule attainable_closed_form [OF pos])
  have nonneg: "0 \<le> ?v" if big: "2 powr (- (64 * expo)) \<le> ?x"
  proof -
    have "log 2 (2 powr (- (64 * expo))) \<le> log 2 ?x"
      using big by (subst log_le_cancel_iff) (auto simp: pos)
    then have "- (64 * expo) \<le> log 2 ?x" by simp
    then have "- 64 \<le> log 2 ?x / expo"
      using expo_pos by (simp add: pos_le_divide_eq)
    then show ?thesis by simp
  qed
  have fl: "attainable_SVP_dim f (SieverParams t) T = Inr \<lfloor>?v\<rfloor>"
    if big: "2 powr (- (64 * expo)) \<le> ?x"
    using cf nonneg [OF big] by (simp add: py_int_def)
  have largest: "\<exists>n. attainable_SVP_dim f (SieverParams t) T = Inr n
           \<and> 2 powr (expo * (of_int n - 64)) / of_int t \<le> f * T
           \<and> f * T < 2 powr (expo * (of_int (n + 1) - 64)) / of_int t"
    if big: "2 powr (- (64 * expo)) \<le> ?x" and t: "0 < t"
  proof -
    have br: "2 powr (expo * (of_int \<lfloor>?v\<rfloor> - 64)) \<le> ?x
        \<and> ?x < 2 powr (expo * (of_int (\<lfloor>?v\<rfloor> + 1) - 64))"
      by (rule floor_bracket [OF pos refl])
    have tr: "0 < (of_int t :: real)" using t by simp
    have "2 powr (expo * (of_int \<lfloor>?v\<rfloor> - 64)) / of_int t \<le> f * T"
      using br tr by (simp add: pos_divide_le_eq)
    moreover have "f * T < 2 powr (expo * (of_int (\<lfloor>?v\<rfloor> + 1) - 64)) / of_int t"
      using br tr by (simp add: pos_less_divide_eq)
    ultimately show ?thesis using fl [OF big] by blast
  qed
  have mono: "\<exists>a b. attainable_SVP_dim f (SieverParams t) T = Inr a
           \<and> attainable_SVP_dim f' (SieverParams t) T' = Inr b \<and> a \<le> b"
    if h: "0 < f \<and> 0 < t \<and> T \<le> T' \<and> f \<le> f'"
  proof -
    have tr: "0 < (of_int t :: real)" using h by simp
    have Tpos: "0 < T" using pos h tr by (simp add: zero_less_mult_iff)
    have "f * T \<le> f' * T'" using h Tpos by (intro mult_mono) auto
    then have le: "?x \<le> f' * T' * of_int t" using tr by (simp add: mult_right_mono)
    then have pos': "0 < f' * T' * of_int t" using pos by linarith
    have "attainable_SVP_dim f' (SieverParams t) T'
            = Inr (py_int (64 + (1 / expo) * log 2 (f' * T' * of_int t)))"
      by (rule attainable_closed_form [OF pos'])
    then show ?thesis using cf attainable_mono_aux [OF pos le] by blast
  qed
  show ?thesis using cf fl largest mono by blast
qed

text \<open>
  C6. With a time factor of \<open>2 powr (- 20)\<close>, one second of reduction and one thread
  the number \<open>64 + (1/C) * log2(f * T * t)\<close> is about \<open>- 4.49\<close>. Its floor is \<open>- 5\<close>, the
  largest dimension whose expected search time stays within the budget \<open>f * T\<close>.
  \<open>int\<close> cuts towards zero and line 204 returns \<open>- 4\<close>, whose expected search time
  exceeds the budget, against the comment of line 203 (the largest \<open>d\<close> with a search
  time of at most \<open>svp_Tmax\<close>).
\<close>

theorem attainable_SVP_dim_exceeds_budget:
  "attainable_SVP_dim (1 / 1048576) (SieverParams 1) 1 = Inr (- 4)
   \<and> \<lfloor>64 + (1 / expo) * log 2 ((1 / 1048576) * 1 * of_int 1)\<rfloor> = (- 5 :: int)
   \<and> (1 / 1048576) * 1 < 2 powr (expo * (of_int (- 4) - 64)) / of_int 1
   \<and> 2 powr (expo * (of_int (- 5) - 64)) / of_int 1 \<le> (1 / 1048576) * (1::real)"
proof -
  have v: "64 + (1 / expo) * log 2 (1 / 1048576) = - (328 / 73)"
    by (simp add: log2_small expo_def)
  have "attainable_SVP_dim (1 / 1048576) (SieverParams 1) 1
       = Inr (py_int (64 + (1 / expo) * log 2 ((1 / 1048576) * 1 * of_int 1)))"
    by (rule attainable_closed_form) simp
  moreover have "py_int (- (328 / 73)) = - 4"
    unfolding py_int_def by (simp add: ceiling_eq_iff)
  moreover have "\<lfloor>- (328 / 73 :: real)\<rfloor> = - 5"
    by (simp add: floor_eq_iff)
  ultimately have code: "attainable_SVP_dim (1 / 1048576) (SieverParams 1) 1 = Inr (- 4)"
    and fl: "\<lfloor>64 + (1 / expo) * log 2 ((1 / 1048576) * 1 * of_int 1)\<rfloor> = (- 5 :: int)"
    using v by simp_all
  have budget: "(2::real) powr (- 20) = 1 / 1048576"
    by (simp add: powr_minus powr_numeral field_simps)
  have "(2::real) powr (- 20) < 2 powr (expo * (- 68))"
    by (intro powr_less_mono) (simp_all add: expo_def)
  then have over: "(1 / 1048576) * 1 < 2 powr (expo * (of_int (- 4) - 64)) / of_int 1"
    using budget by simp
  have "(2::real) powr (expo * (- 69)) \<le> 2 powr (- 20)"
    by (intro powr_mono) (simp_all add: expo_def)
  then have within: "2 powr (expo * (of_int (- 5) - 64)) / of_int 1 \<le> (1 / 1048576) * (1::real)"
    using budget by simp
  show ?thesis using code fl over within by blast
qed

subsection \<open>The expected successful dimension\<close>

lemma success_test_total:
  "gm \<noteq> 0 \<Longrightarrow> success_test gh tn gm d prof k = Inr (success_condition gh tn gm d prof k)"
  by (simp add: success_test_def success_condition_def py_div_def)

lemma for_break_none:
  "\<forall>k\<in>set ks. c k = Inr False \<Longrightarrow>
   for_break c ks v = Inr (if ks = [] then v else Some (last ks))"
  by (induction ks arbitrary: v) auto

lemma for_break_first:
  "\<forall>j\<in>set xs. c j = Inr False \<Longrightarrow> c k = Inr True \<Longrightarrow>
   for_break c (xs @ k # ys) v = Inr (Some k)"
  by (induction xs arbitrary: v) auto

lemma for_break_in_set:
  "\<forall>k\<in>set ks. \<exists>b. c k = Inr b \<Longrightarrow> ks \<noteq> [] \<Longrightarrow>
   \<exists>k\<in>set ks. for_break c ks v = Inr (Some k)"
proof (induction ks arbitrary: v)
  case Nil
  then show ?case by simp
next
  case (Cons a ks)
  then obtain b where b: "c a = Inr b" by auto
  show ?case
  proof (cases "b \<or> ks = []")
    case True
    then show ?thesis using b by (cases b) auto
  next
    case False
    then have "\<exists>k\<in>set ks. for_break c ks (Some a) = Inr (Some k)"
      using Cons by auto
    then show ?thesis using b False by auto
  qed
qed

lemma esd_first:
  assumes gm: "gm \<noteq> 0" and k: "2 \<le> k" "k < d"
    and hit: "success_condition gh tn gm d prof k"
    and miss: "\<forall>j. 2 \<le> j \<and> j < k \<longrightarrow> \<not> success_condition gh tn gm d prof j"
  shows "expected_successful_SVP_dim gh tn gm d prof = Inr k"
proof -
  have split: "[2..d - 1] = [2..k - 1] @ k # [k + 1..d - 1]"
    using k by (intro upto_split3) auto
  have "for_break (success_test gh tn gm d prof) ([2..k - 1] @ k # [k + 1..d - 1]) None
        = Inr (Some k)"
    using gm hit miss by (intro for_break_first) (auto simp: success_test_total)
  then show ?thesis by (simp add: expected_successful_SVP_dim_def split)
qed

lemma esd_none:
  assumes gm: "gm \<noteq> 0" and d: "3 \<le> d"
    and miss: "\<forall>j. 2 \<le> j \<and> j < d \<longrightarrow> \<not> success_condition gh tn gm d prof j"
  shows "expected_successful_SVP_dim gh tn gm d prof = Inr (d - 1)"
proof -
  have ne: "[2..d - 1] \<noteq> []" using d by simp
  have l: "last [2..d - 1] = d - 1" using d by (simp add: upto_rec2)
  have "for_break (success_test gh tn gm d prof) [2..d - 1] None
        = Inr (if [2..d - 1] = [] then None else Some (last [2..d - 1]))"
    using gm miss by (intro for_break_none) (auto simp: success_test_total)
  then show ?thesis using ne l by (simp add: expected_successful_SVP_dim_def)
qed

lemma esd_range:
  assumes gm: "gm \<noteq> 0" and d: "3 \<le> d"
  shows "\<exists>k. expected_successful_SVP_dim gh tn gm d prof = Inr k \<and> 2 \<le> k \<and> k < d"
proof -
  have "\<exists>k\<in>set [2..d - 1].
          for_break (success_test gh tn gm d prof) [2..d - 1] None = Inr (Some k)"
    using gm d by (intro for_break_in_set) (auto simp: success_test_total)
  then show ?thesis by (auto simp: expected_successful_SVP_dim_def)
qed

text \<open>
  C5 (as amended). With a non-zero \<open>goal_margin\<close>: when some candidate \<open>k\<close> in
  \<open>[2, d)\<close> meets the success condition, \<open>expected_successful_SVP_dim\<close> returns the
  smallest such \<open>k\<close>; and whenever \<open>d \<ge> 3\<close> it returns a value in \<open>[2, d)\<close>.
\<close>

theorem expected_successful_SVP_dim_first_hit:
  assumes "goal_margin \<noteq> 0"
  shows "(\<forall>k. 2 \<le> k \<and> k < d \<and> success_condition gh tn goal_margin d prof k
              \<and> (\<forall>j. 2 \<le> j \<and> j < k \<longrightarrow> \<not> success_condition gh tn goal_margin d prof j)
            \<longrightarrow> expected_successful_SVP_dim gh tn goal_margin d prof = Inr k)
       \<and> (3 \<le> d \<longrightarrow>
            (\<exists>k. expected_successful_SVP_dim gh tn goal_margin d prof = Inr k \<and> 2 \<le> k \<and> k < d))"
  using assms esd_first [of goal_margin _ d gh tn prof] esd_range [of goal_margin d gh tn prof]
  by blast

theorem expected_successful_SVP_dim_first_hit_witness:
  "expected_successful_SVP_dim mean_gh 10 1 5 [2000, 80, 40, 2, 1] = Inr 3
   \<and> success_condition mean_gh 10 1 5 [2000, 80, 40, 2, 1] 3
   \<and> \<not> success_condition mean_gh 10 1 5 [2000, 80, 40, 2, 1] 2"
proof -
  have hit: "success_condition mean_gh 10 1 5 [2000, 80, 40, 2, 1] 3"
    by (simp add: success_condition_def mean_gh_def)
  have miss2: "\<not> success_condition mean_gh 10 1 5 [2000, 80, 40, 2, 1] 2"
    by (simp add: success_condition_def mean_gh_def)
  have miss: "\<forall>j. 2 \<le> j \<and> j < 3 \<longrightarrow> \<not> success_condition mean_gh 10 1 5 [2000, 80, 40, 2, 1] j"
  proof (intro allI impI)
    fix j :: int assume "2 \<le> j \<and> j < 3"
    then have "j = 2" by arith
    then show "\<not> success_condition mean_gh 10 1 5 [2000, 80, 40, 2, 1] j"
      using miss2 by simp
  qed
  have "(1::real) \<noteq> 0" by simp
  from expected_successful_SVP_dim_first_hit [OF this, of 5 mean_gh 10 "[2000, 80, 40, 2, 1]"]
  show ?thesis using hit miss miss2 by auto
qed

text \<open>
  On a flat tail and a large target no candidate meets the condition; the value
  returned, \<open>4\<close>, is then not a candidate that meets it.
\<close>

theorem expected_successful_SVP_dim_least_counterexample:
  "(0::real) < 1000 \<and> (0::real) < 1
   \<and> expected_successful_SVP_dim mean_gh 1000 1 5 [2000, 1, 1, 1, 1] = Inr 4
   \<and> \<not> success_condition mean_gh 1000 1 5 [2000, 1, 1, 1, 1] 4"
  by (simp add: expected_successful_SVP_dim_def success_test_def py_div_def mean_gh_def
      success_condition_def upto_rec1)

text \<open>
  C2 (as amended). With a non-zero \<open>goal_margin\<close> and \<open>d \<ge> 3\<close>: when no candidate
  in \<open>[2, d)\<close> meets the success condition, \<open>expected_successful_SVP_dim\<close> ends and
  returns the last candidate, \<open>d - 1\<close>; it raises nothing. (The model is a total
  function over a finite list of candidates, so the scan always ends.)
\<close>

theorem expected_successful_SVP_dim_no_hit:
  assumes "goal_margin \<noteq> 0" and "3 \<le> d"
    and "\<forall>k. 2 \<le> k \<and> k < d \<longrightarrow> \<not> success_condition gh tn goal_margin d prof k"
  shows "expected_successful_SVP_dim gh tn goal_margin d prof = Inr (d - 1)"
  using assms by (rule esd_none)

theorem expected_successful_SVP_dim_no_hit_witness:
  "expected_successful_SVP_dim mean_gh 500 1 4 [900, 1, 1, 1] = Inr (4 - 1)
   \<and> \<not> success_condition mean_gh 500 1 4 [900, 1, 1, 1] 2
   \<and> \<not> success_condition mean_gh 500 1 4 [900, 1, 1, 1] 3"
proof -
  have m2: "\<not> success_condition mean_gh 500 1 4 [900, 1, 1, 1] 2"
    and m3: "\<not> success_condition mean_gh 500 1 4 [900, 1, 1, 1] 3"
    by (simp_all add: success_condition_def mean_gh_def)
  have miss: "\<forall>k. 2 \<le> k \<and> k < 4 \<longrightarrow> \<not> success_condition mean_gh 500 1 4 [900, 1, 1, 1] k"
  proof (intro allI impI)
    fix k :: int assume "2 \<le> k \<and> k < 4"
    then have "k = 2 \<or> k = 3" by arith
    then show "\<not> success_condition mean_gh 500 1 4 [900, 1, 1, 1] k"
      using m2 m3 by auto
  qed
  have "(1::real) \<noteq> 0" and "(3::int) \<le> 4" by simp_all
  from expected_successful_SVP_dim_no_hit [OF this miss]
  show ?thesis using m2 m3 by simp
qed

text \<open>No candidate of \<open>[2, 4)\<close> meets the condition, and the result is the value \<open>3\<close>.\<close>

theorem expected_successful_SVP_dim_degenerate_counterexample:
  "\<not> success_condition mean_gh 1000 1 4 [2000, 1, 1, 1] 2
   \<and> \<not> success_condition mean_gh 1000 1 4 [2000, 1, 1, 1] 3
   \<and> expected_successful_SVP_dim mean_gh 1000 1 4 [2000, 1, 1, 1] = Inr 3"
  by (simp add: expected_successful_SVP_dim_def success_test_def py_div_def mean_gh_def
      success_condition_def upto_rec1)

subsection \<open>The schedule\<close>

text \<open>
  C7. With the explicit specification \<open>10:20:2\<close> the text handed to \<open>eval\<close> is
  \<open>range(10,20,2)\<close>, whose value is a range object; adding it to the list
  \<open>list(range(10, 40))\<close> raises \<open>TypeError\<close>, so no schedule is built. The default
  branch (line 137) wraps every range in \<open>list(...)\<close>; had line 135 done so, the
  schedule would be the list of the last conjunct.
\<close>

theorem explicit_blocksizes_raise:
  "build_schedule (Some ''10:20:2'') b
     = Some (Inl (TypeError ''can only concatenate list (not range) to list''))
   \<and> eval_range (re_sub_colon ''10:20:2'') = Some (Inr (PyRange 10 20 2))
   \<and> list_range 10 40 1 @ list_range 10 20 2
     = [10, 11, 12, 13, 14, 15, 16, 17, 18, 19, 20, 21, 22, 23, 24, 25, 26, 27, 28, 29,
        30, 31, 32, 33, 34, 35, 36, 37, 38, 39] @ [10, 12, 14, 16, 18]"
  by (simp add: build_schedule_def explicit_blocksizes_def eval_range_def re_sub_colon_def
      parse_int_lit_def leading_zero_def list_range_def range_len_def upt_rec)

subsection \<open>The lookahead\<close>

lemma simulate_tours_params:
  "simulate_tours E rs s = Inr s' \<Longrightarrow> rs \<noteq> [] \<Longrightarrow> params (kst s') = BKZParam (last rs) 1"
proof (induction rs arbitrary: s)
  case Nil
  then show ?case by simp
next
  case (Cons r rs)
  show ?case
  proof (cases "T_blocksizes (kst s) (previous_blocksize s)")
    case None
    then show ?thesis using Cons.prems by simp
  next
    case (Some T_prev)
    show ?thesis
    proof (cases "rs = []")
      case True
      then show ?thesis using Cons.prems Some by (auto simp: Let_def)
    next
      case False
      then show ?thesis using Cons.prems Some Cons.IH by (auto simp: Let_def)
    qed
  qed
qed

lemma simulate_tours_lengths:
  "simulate_tours E rs s = Inr s' \<Longrightarrow>
   length (future_rrs s') = length (future_rrs s) + length rs
   \<and> length (extra_T_BKZs s') = length (extra_T_BKZs s) + length rs"
proof (induction rs arbitrary: s)
  case Nil
  then show ?case by simp
next
  case (Cons r rs)
  then show ?case
    by (cases "T_blocksizes (kst s) (previous_blocksize s)") (auto simp: Let_def dest!: Cons.IH)
qed

lemma more_BKZ_loop_BKZParam:
  "more_BKZ_loop esd (BKZParam b l) cur steps flag = Inr r \<Longrightarrow> r = flag"
proof (induction steps arbitrary: flag)
  case Nil
  then show ?case by simp
next
  case (Cons step steps)
  obtain prof extra where step: "step = (prof, extra)" by (cases step)
  show ?case
    using Cons.prems Cons.IH unfolding step
    by (auto simp: Let_def split: sum.splits if_splits)
qed

lemma lookahead_never_more:
  assumes "lookahead E cfg tn d blocksizes blocksize cur st = Inr (flag, st')"
  shows "\<not> flag"
proof -
  from assms obtain ind s where
    ind: "index_of blocksizes blocksize = Some ind"
    and sim: "simulate_tours E (take 2 (drop (ind + 1) blocksizes))
                \<lparr>kst = st, rr = profile E d (g6k st), extra_T_BKZ = 0,
                 previous_blocksize = blocksize, future_rrs = [], extra_T_BKZs = []\<rparr> = Inr s"
    and loop: "more_BKZ_loop
                 (expected_successful_SVP_dim (gaussian_heuristic E) tn (lwe_goal_margin cfg) d)
                 (params (kst s)) cur (zip (future_rrs s) (extra_T_BKZs s)) False = Inr flag"
    by (auto simp: lookahead_def Let_def split: option.splits sum.splits)
  show ?thesis
  proof (cases "take 2 (drop (ind + 1) blocksizes) = []")
    case True
    then have "s = \<lparr>kst = st, rr = profile E d (g6k st), extra_T_BKZ = 0,
                 previous_blocksize = blocksize, future_rrs = [], extra_T_BKZs = []\<rparr>"
      using sim by simp
    then show ?thesis using loop by simp
  next
    case False
    then have "params (kst s) = BKZParam (last (take 2 (drop (ind + 1) blocksizes))) 1"
      using simulate_tours_params [OF sim] by simp
    then show ?thesis using loop more_BKZ_loop_BKZParam by metis
  qed
qed

text \<open>What a lookahead that returns has done to \<open>params\<close> and to the timing table.\<close>

lemma simulate_tours_table:
  "simulate_tours E rs s = Inr s' \<Longrightarrow>
   dom (T_blocksizes (kst s)) \<union> set rs \<subseteq> dom (T_blocksizes (kst s'))"
proof (induction rs arbitrary: s)
  case Nil
  then show ?case by simp
next
  case (Cons r rs)
  show ?case
  proof (cases "T_blocksizes (kst s) (previous_blocksize s)")
    case None
    then show ?thesis using Cons.prems by simp
  next
    case (Some T_prev)
    define table1 where
      "table1 = (T_blocksizes (kst s))(r \<mapsto> T_prev * 2 powr (expo * of_int (r - previous_blocksize s)))"
    from Cons.prems Some obtain s1 where
      rest: "simulate_tours E rs s1 = Inr s'" and tab: "T_blocksizes (kst s1) = table1"
      by (auto simp: Let_def table1_def)
    have grown: "dom table1 \<union> set rs \<subseteq> dom (T_blocksizes (kst s'))"
      using Cons.IH [OF rest] tab by simp
    have "dom table1 = insert r (dom (T_blocksizes (kst s)))"
      by (simp add: table1_def)
    then have "dom (T_blocksizes (kst s)) \<union> set (r # rs) \<subseteq> dom table1 \<union> set rs"
      by auto
    then show ?thesis using grown by (rule order_trans)
  qed
qed

lemma lookahead_rebinds_params:
  assumes "lookahead E cfg tn d blocksizes blocksize cur st = Inr (flag, st')"
    and "index_of blocksizes blocksize = Some ind"
    and "take 2 (drop (ind + 1) blocksizes) \<noteq> []"
  shows "params st' = BKZParam (last (take 2 (drop (ind + 1) blocksizes))) 1"
proof -
  from assms(1,2) obtain s where
    sim: "simulate_tours E (take 2 (drop (ind + 1) blocksizes))
                \<lparr>kst = st, rr = profile E d (g6k st), extra_T_BKZ = 0,
                 previous_blocksize = blocksize, future_rrs = [], extra_T_BKZs = []\<rparr> = Inr s"
    and st': "st' = kst s"
    by (auto simp: lookahead_def Let_def split: sum.splits)
  show ?thesis unfolding st' by (rule simulate_tours_params [OF sim assms(3)])
qed

lemma lookahead_stores_extrapolations:
  assumes "lookahead E cfg tn d blocksizes blocksize cur st = Inr (flag, st')"
    and "index_of blocksizes blocksize = Some ind"
  shows "set (take 2 (drop (ind + 1) blocksizes)) \<subseteq> dom (T_blocksizes st')"
proof -
  from assms obtain s where
    sim: "simulate_tours E (take 2 (drop (ind + 1) blocksizes))
                \<lparr>kst = st, rr = profile E d (g6k st), extra_T_BKZ = 0,
                 previous_blocksize = blocksize, future_rrs = [], extra_T_BKZs = []\<rparr> = Inr s"
    and st': "st' = kst s"
    by (auto simp: lookahead_def Let_def split: sum.splits)
  show ?thesis unfolding st' using simulate_tours_table [OF sim] by simp
qed

text \<open>The rule the second loop applies when the thread count can be read.\<close>

lemma more_BKZ_loop_rule:
  assumes "t \<noteq> 0" and "\<forall>step\<in>set steps. esd (fst step) = Inr (pot (fst step))"
  shows "more_BKZ_loop esd (SieverParams t) cur steps flag
         = Inr (flag \<or> (\<exists>step\<in>set steps. pot (fst step) < cur
               \<and> snd step < (1 - 2 powr (expo * of_int (pot (fst step) - cur)))
                             * (2 powr (expo * of_int (cur - 64)) / of_int t)))"
  using assms
proof (induction steps arbitrary: flag)
  case Nil
  then show ?case by simp
next
  case (Cons step steps)
  obtain prof extra where step: "step = (prof, extra)" by (cases step)
  have e: "esd prof = Inr (pot prof)" using Cons.prems step by simp
  have ih: "\<And>m. more_BKZ_loop esd (SieverParams t) cur steps m
         = Inr (m \<or> (\<exists>step\<in>set steps. pot (fst step) < cur
               \<and> snd step < (1 - 2 powr (expo * of_int (pot (fst step) - cur)))
                             * (2 powr (expo * of_int (cur - 64)) / of_int t)))"
    using Cons.IH Cons.prems by simp
  show ?case
    unfolding step using e Cons.prems(1)
    by (auto simp: Let_def py_div_def ih)
qed

subsection \<open>The enlarged SVP call\<close>




lemma shrink_llb_never_stops:
  assumes "shrink_llb E w tn d llb = Some y"
  shows "\<exists>j. j \<le> llb \<and> \<not> window_test E w tn d j"
proof (rule shrink_llb.raw_induct
    [where P = "\<lambda>E w tn d llb y. \<exists>j. j \<le> llb \<and> \<not> window_test E w tn d j", OF _ assms])
  fix shrink :: "'a env \<Rightarrow> 'a \<Rightarrow> real \<Rightarrow> int \<Rightarrow> int \<Rightarrow> int option"
    and E w tn d llb y
  assume IH: "\<And>E w tn d llb y. shrink E w tn d llb = Some y \<Longrightarrow>
                 \<exists>j. j \<le> llb \<and> \<not> window_test E w tn d j"
    and eq: "(if window_test E w tn d llb then shrink E w tn d (llb - 1) else Some llb) = Some y"
  show "\<exists>j. j \<le> llb \<and> \<not> window_test E w tn d j"
  proof (cases "window_test E w tn d llb")
    case True
    then have "shrink E w tn d (llb - 1) = Some y" using eq by simp
    then have "\<exists>j. j \<le> llb - 1 \<and> \<not> window_test E w tn d j" by (rule IH)
    then obtain j where j: "j \<le> llb - 1" and nt: "\<not> window_test E w tn d j" by auto
    have "j \<le> llb" using j by linarith
    then show ?thesis using nt by auto
  next
    case False
    have "llb \<le> llb" by simp
    then show ?thesis using False by auto
  qed
qed

lemma shrink_llb_diverges:
  "\<forall>j. j \<le> llb \<longrightarrow> window_test E w tn d j \<Longrightarrow> shrink_llb E w tn d llb = None"
  using shrink_llb_never_stops [of E w tn d llb] by (cases "shrink_llb E w tn d llb") auto



subsection \<open>The exits of the kernel\<close>

lemma blocks_loop_solved:
  "blocks_loop E cfg n tn d blocksizes rest st = Some (Inr S) \<Longrightarrow>
   get_r E (g6k (final S)) 0 \<le> tn
   \<and> filename S = solution_filename n (lwe_alpha cfg)
   \<and> written S = row0 E (g6k (final S))"
proof (induction rest arbitrary: st)
  case Nil
  then show ?case by simp
next
  case (Cons b rest)
  then show ?case
    by (auto split: option.splits sum.splits if_splits)
qed

lemma blocks_loop_errors:
  "blocks_loop E cfg n tn d blocksizes rest st = Some (Inl e) \<Longrightarrow>
   e = ValueError ''No solution found.''
   \<or> (\<exists>b st1. tours_loop E cfg tn d blocksizes b (nat (bkz_tours cfg)) st1 = Some (Inl e))"
proof (induction rest arbitrary: st)
  case Nil
  then show ?case by simp
next
  case (Cons b rest)
  then show ?case
    by (auto split: option.splits sum.splits if_splits)
qed

subsection \<open>Concrete runs in the toy world\<close>

lemma toy_tn_val: "toy_tn = 8254100 / 8000000"
  by (simp add: toy_tn_def target_norm_def power2_eq_square)

lemma profile_flat: "profile (toy_env est s0 sim pmp) 12 \<lparr>clock = c, gso = flat\<rparr> = flat"
  by (simp add: profile_def toy_env_def flat_def upto_rec1)

lemma esd_flat: "expected_successful_SVP_dim mean_gh toy_tn (3 / 2) 12 flat = Inr 2"
  by (simp add: expected_successful_SVP_dim_def success_test_def py_div_def mean_gh_def
      toy_tn_val flat_def upto_rec1)

lemma gh_toy: "gaussian_heuristic (toy_env est s0 sim pmp) = mean_gh"
  by (simp add: toy_env_def)

lemma sim_toy: "simulate (toy_env est s0 sim pmp) x p = sim"
  by (simp add: toy_env_def)

lemma goal_margin_toy: "lwe_goal_margin toy_config = 3 / 2" "lwe_goal_margin quiet_config = 3 / 2"
  by (simp_all add: toy_config_def quiet_config_def)

lemma lookahead_flat:
  assumes gm: "lwe_goal_margin cfg = 3 / 2"
  shows "lookahead (toy_env est s0 flat pmp) cfg toy_tn 12 (10 # 11 # 12 # bs) 10 2
     \<lparr>g6k = \<lparr>clock = c, gso = flat\<rparr>, params = p, T0_BKZ = t0, T_blocksizes = [10 \<mapsto> T]\<rparr>
   = Inr (False, \<lparr>g6k = \<lparr>clock = c, gso = flat\<rparr>, params = BKZParam 12 1, T0_BKZ = t0,
        T_blocksizes = [10 \<mapsto> T, 11 \<mapsto> T * 2 powr (expo * of_int (11 - 10)),
           12 \<mapsto> T * 2 powr (expo * of_int (11 - 10)) * 2 powr (expo * of_int (12 - 11))]\<rparr>)"
  by (simp add: lookahead_def profile_flat gh_toy sim_toy esd_flat Let_def gm)

lemma shrink_flat:
  "shrink_llb (toy_env est s0 sim pmp) \<lparr>clock = c, gso = flat\<rparr> toy_tn 12 2 = Some 2"
  by (subst shrink_llb.simps)
    (simp add: window_test_def toy_env_def mean_gh_def flat_def toy_tn_val upto_rec1)

lemma larger_SVP_flat_verbose:
  "larger_SVP (toy_env est s0 sim pmp) toy_config toy_tn 12 10 64
     \<lparr>g6k = \<lparr>clock = c, gso = flat\<rparr>, params = p, T0_BKZ = t0, T_blocksizes = tb\<rparr>
   = Some (Inl (NameError ''svp_Tmax''))"
  by (simp add: larger_SVP_def shrink_flat toy_config_def)

lemma larger_SVP_flat_quiet:
  "larger_SVP (toy_env est s0 sim pmp) quiet_config toy_tn 12 10 64
     \<lparr>g6k = \<lparr>clock = c, gso = flat\<rparr>, params = p, T0_BKZ = t0, T_blocksizes = tb\<rparr>
   = Some (Inr \<lparr>g6k = \<lparr>clock = c + 1, gso = pmp\<rparr>, params = p, T0_BKZ = c + 1,
                T_blocksizes = tb\<rparr>)"
proof -
  let ?E = "toy_env est s0 sim pmp"
  have sel: "now ?E = clock" "lll ?E = (\<lambda>w. w)"
    "pump ?E = (\<lambda>llb k f g w. \<lparr>clock = clock w + 1, gso = pmp\<rparr>)"
    by (simp_all add: toy_env_def)
  have v: "\<not> verbose quiet_config" by (simp add: quiet_config_def)
  show ?thesis
    by (simp add: larger_SVP_def shrink_flat v sel Let_def)
qed

lemma attainable_one: "attainable_SVP_dim 1 (SieverParams 1) 1 = Inr 64"
  by (simp add: attainable_SVP_dim_def py_log_def py_int_def)

lemma tour_flat_first:
  "tour (toy_env est s0 flat flat) quiet_config toy_tn 12 (10 # 11 # 12 # bs) 10
     \<lparr>g6k = \<lparr>clock = 0, gso = flat\<rparr>, params = SieverParams 1, T0_BKZ = 0,
      T_blocksizes = Map.empty\<rparr>
   = Some (Inr (Next, \<lparr>g6k = \<lparr>clock = 2, gso = flat\<rparr>, params = BKZParam 12 1, T0_BKZ = 2,
        T_blocksizes = [10 \<mapsto> 1, 11 \<mapsto> 1 * 2 powr (expo * of_int (11 - 10)),
           12 \<mapsto> 1 * 2 powr (expo * of_int (11 - 10)) * 2 powr (expo * of_int (12 - 11))]\<rparr>))"
proof -
  let ?E = "toy_env est s0 flat flat"
  have sel: "now ?E = clock" "lll ?E = (\<lambda>w. w)"
    "fpylll_tour ?E = (\<lambda>b w. w\<lparr>clock := clock w + 1\<rparr>)"
    "get_r ?E \<lparr>clock = k, gso = flat\<rparr> 0 = 4" for k
    by (simp_all add: toy_env_def flat_def)
  have cfg: "bkz_fpylll_crossover quiet_config = 51" "lwe_svp_bkz_time_factor quiet_config = 1"
    by (simp_all add: quiet_config_def toy_config_def)
  have big: "\<not> (4 \<le> toy_tn)" by (simp add: toy_tn_val)
  show ?thesis
    by (simp add: tour_def Let_def sel cfg big attainable_one profile_flat gh_toy esd_flat
        goal_margin_toy lookahead_flat larger_SVP_flat_quiet)
qed

lemma tour_flat_second:
  "tour (toy_env est s0 flat flat) quiet_config toy_tn 12 bs 11
     \<lparr>g6k = \<lparr>clock = 2, gso = flat\<rparr>, params = BKZParam 12 1, T0_BKZ = 2, T_blocksizes = tb\<rparr>
   = Some (Inl (AttributeError ''threads''))"
proof -
  let ?E = "toy_env est s0 flat flat"
  have sel: "now ?E = clock" "lll ?E = (\<lambda>w. w)"
    "fpylll_tour ?E = (\<lambda>b w. w\<lparr>clock := clock w + 1\<rparr>)"
    "get_r ?E \<lparr>clock = k, gso = flat\<rparr> 0 = 4" for k
    by (simp_all add: toy_env_def flat_def)
  have cfg: "bkz_fpylll_crossover quiet_config = 51" "lwe_svp_bkz_time_factor quiet_config = 1"
    by (simp_all add: quiet_config_def toy_config_def)
  have big: "\<not> (4 \<le> toy_tn)" by (simp add: toy_tn_val)
  show ?thesis
    by (simp add: tour_def Let_def sel cfg big attainable_SVP_dim_def)
qed

lemma schedule_head: "\<exists>bs. default_blocksizes b = 10 # 11 # 12 # bs"
proof -
  have "list_range 10 50 1 = 10 # 11 # 12 # list_range 13 50 1"
    by (simp add: list_range_def range_len_def upt_rec)
  then show ?thesis by (simp add: default_blocksizes_def)
qed

lemma prepare_toy:
  assumes "bkz_blocksizes cfg = None" "lwe_m cfg = None" "lwe_goal_margin cfg = 3 / 2"
    "lwe_alpha cfg = 5 / 1000" "threads cfg = 1"
  shows "prepare (toy_env (Some (60, 50, 7)) s0 sim pmp) cfg 40
   = Some (Inr \<lparr>run_target_norm = toy_tn, run_blocksizes = default_blocksizes 60,
                run_d = int (length s0),
                run_start = \<lparr>g6k = \<lparr>clock = 0, gso = s0\<rparr>, params = SieverParams 1,
                             T0_BKZ = 0, T_blocksizes = Map.empty\<rparr>\<rparr>)"
  by (simp add: prepare_def toy_env_def build_schedule_def toy_tn_def assms)

lemma cfg_toy:
  "bkz_blocksizes toy_config = None" "lwe_m toy_config = None"
  "lwe_goal_margin toy_config = 3 / 2" "lwe_alpha toy_config = 5 / 1000"
  "threads toy_config = 1" "nat (bkz_tours toy_config) = Suc 0" "verbose toy_config"
  by (simp_all add: toy_config_def)

lemma cfg_quiet:
  "bkz_blocksizes quiet_config = None" "lwe_m quiet_config = None"
  "lwe_goal_margin quiet_config = 3 / 2" "lwe_alpha quiet_config = 5 / 1000"
  "threads quiet_config = 1" "nat (bkz_tours quiet_config) = Suc 0" "\<not> verbose quiet_config"
  by (simp_all add: toy_config_def quiet_config_def)

lemma digits_40: "digits 40 = ''40''"
  by (simp add: digits.simps)

lemma digits_5: "digits 5 = ''5''"
  by (simp add: digits.simps)

lemma filename_40: "solution_filename 40 (1 / 200) = ''lwechallenge/040-005-solution.txt''"
  by (simp add: solution_filename_def fmt_03d_def zero_pad_def py_int_def digits_40 digits_5
      numeral_2_eq_2)

lemma lwe_kernel_quiet_run:
  "lwe_kernel (toy_env (Some (60, 50, 7)) flat flat flat) quiet_config 40
   = Some (Inl (AttributeError ''threads''))"
proof -
  let ?E = "toy_env (Some (60, 50, 7)) flat flat flat"
  obtain bs where bs: "default_blocksizes 60 = 10 # 11 # 12 # bs"
    using schedule_head by blast
  have r0: "get_r ?E \<lparr>clock = k, gso = flat\<rparr> 0 = 4" for k
    by (simp add: toy_env_def flat_def)
  have big: "\<not> (4 \<le> toy_tn)" by (simp add: toy_tn_val)
  have len: "int (length flat) = 12" by (simp add: flat_def)
  show ?thesis
    by (simp add: lwe_kernel_def prepare_toy cfg_quiet len bs tour_flat_first tour_flat_second
        r0 big)
qed

lemma tour_won:
  "tour (toy_env est s0 sim pmp) toy_config toy_tn 12 bs 10
     \<lparr>g6k = \<lparr>clock = 0, gso = won\<rparr>, params = SieverParams 1, T0_BKZ = 0,
      T_blocksizes = Map.empty\<rparr>
   = Some (Inr (Break, \<lparr>g6k = \<lparr>clock = 1, gso = won\<rparr>, params = SieverParams 1, T0_BKZ = 0,
        T_blocksizes = [10 \<mapsto> 1]\<rparr>))"
proof -
  let ?E = "toy_env est s0 sim pmp"
  have sel: "now ?E = clock" "lll ?E = (\<lambda>w. w)"
    "fpylll_tour ?E = (\<lambda>b w. w\<lparr>clock := clock w + 1\<rparr>)"
    "get_r ?E \<lparr>clock = k, gso = won\<rparr> 0 = 1" for k
    by (simp_all add: toy_env_def won_def)
  have cfg: "bkz_fpylll_crossover toy_config = 51"
    by (simp_all add: toy_config_def)
  have small: "1 \<le> toy_tn" by (simp add: toy_tn_val)
  show ?thesis
    by (simp add: tour_def Let_def sel cfg small)
qed

lemma lwe_kernel_won_run:
  "lwe_kernel (toy_env (Some (60, 50, 7)) won flat flat) toy_config 40
   = Some (Inr \<lparr>filename = ''lwechallenge/040-005-solution.txt'', written = ''[1 0 0]'',
        final = \<lparr>g6k = \<lparr>clock = 1, gso = won\<rparr>, params = SieverParams 1, T0_BKZ = 0,
                  T_blocksizes = [10 \<mapsto> 1]\<rparr>\<rparr>)"
proof -
  let ?E = "toy_env (Some (60, 50, 7)) won flat flat"
  obtain bs where bs: "default_blocksizes 60 = 10 # 11 # 12 # bs"
    using schedule_head by blast
  have r0: "get_r ?E \<lparr>clock = k, gso = won\<rparr> 0 = 1" for k
    by (simp add: toy_env_def won_def)
  have row: "row0 ?E = (\<lambda>w. ''[1 0 0]'')" by (simp add: toy_env_def)
  have small: "1 \<le> toy_tn" by (simp add: toy_tn_val)
  have len: "int (length won) = 12" by (simp add: won_def)
  show ?thesis
    by (simp add: lwe_kernel_def prepare_toy cfg_toy len bs tour_won r0 small row filename_40)
qed

lemma lwe_kernel_no_parameters:
  "lwe_kernel (toy_env None flat flat flat) toy_config 40
   = Some (Inl (TypeError ''No winning parameters.''))"
  by (simp add: lwe_kernel_def prepare_def toy_env_def)

lemma blocks_loop_no_tours:
  "bkz_tours cfg \<le> 0 \<Longrightarrow> \<not> get_r E (g6k st) 0 \<le> tn \<Longrightarrow>
   blocks_loop E cfg n tn d blocksizes rest st = Some (Inl (ValueError ''No solution found.''))"
  by (induction rest) auto

lemma cfg_no_tours:
  "bkz_blocksizes (toy_config\<lparr>bkz_tours := 0\<rparr>) = None" "lwe_m (toy_config\<lparr>bkz_tours := 0\<rparr>) = None"
  "lwe_goal_margin (toy_config\<lparr>bkz_tours := 0\<rparr>) = 3 / 2"
  "lwe_alpha (toy_config\<lparr>bkz_tours := 0\<rparr>) = 5 / 1000"
  "threads (toy_config\<lparr>bkz_tours := 0\<rparr>) = 1" "bkz_tours (toy_config\<lparr>bkz_tours := 0\<rparr>) \<le> 0"
  by (simp_all add: toy_config_def)

lemma lwe_kernel_no_tours_run:
  "lwe_kernel (toy_env (Some (60, 50, 7)) flat flat flat) (toy_config\<lparr>bkz_tours := 0\<rparr>) 40
   = Some (Inl (ValueError ''No solution found.''))"
proof -
  let ?E = "toy_env (Some (60, 50, 7)) flat flat flat"
  let ?cfg = "toy_config\<lparr>bkz_tours := 0\<rparr>"
  have prep: "prepare ?E ?cfg 40
   = Some (Inr \<lparr>run_target_norm = toy_tn, run_blocksizes = default_blocksizes 60,
                run_d = int (length flat),
                run_start = \<lparr>g6k = \<lparr>clock = 0, gso = flat\<rparr>, params = SieverParams 1,
                             T0_BKZ = 0, T_blocksizes = Map.empty\<rparr>\<rparr>)"
    by (rule prepare_toy) (rule cfg_no_tours)+
  have far: "\<not> get_r ?E (g6k \<lparr>g6k = \<lparr>clock = 0, gso = flat\<rparr>, params = SieverParams 1,
                             T0_BKZ = 0, T_blocksizes = Map.empty\<rparr>) 0 \<le> toy_tn"
    by (simp add: toy_env_def flat_def toy_tn_val)
  show ?thesis
    unfolding lwe_kernel_def prep
    using blocks_loop_no_tours [OF cfg_no_tours(6) far] by simp
qed

lemma tour_flat_verbose:
  "tour (toy_env est s0 flat flat) toy_config toy_tn 12 (10 # 11 # 12 # bs) 10
     \<lparr>g6k = \<lparr>clock = 0, gso = flat\<rparr>, params = SieverParams 1, T0_BKZ = 0,
      T_blocksizes = Map.empty\<rparr>
   = Some (Inl (NameError ''svp_Tmax''))"
proof -
  let ?E = "toy_env est s0 flat flat"
  have sel: "now ?E = clock" "lll ?E = (\<lambda>w. w)"
    "fpylll_tour ?E = (\<lambda>b w. w\<lparr>clock := clock w + 1\<rparr>)"
    "get_r ?E \<lparr>clock = k, gso = flat\<rparr> 0 = 4" for k
    by (simp_all add: toy_env_def flat_def)
  have cfg: "bkz_fpylll_crossover toy_config = 51" "lwe_svp_bkz_time_factor toy_config = 1"
    by (simp_all add: toy_config_def)
  have big: "\<not> (4 \<le> toy_tn)" by (simp add: toy_tn_val)
  show ?thesis
    by (simp add: tour_def Let_def sel cfg big attainable_one profile_flat gh_toy esd_flat
        goal_margin_toy lookahead_flat larger_SVP_flat_verbose)
qed

lemma lwe_kernel_verbose_run:
  "lwe_kernel (toy_env (Some (60, 50, 7)) flat flat flat) toy_config 40
   = Some (Inl (NameError ''svp_Tmax''))"
proof -
  obtain bs where bs: "default_blocksizes 60 = 10 # 11 # 12 # bs"
    using schedule_head by blast
  have len: "int (length flat) = 12" by (simp add: flat_def)
  show ?thesis
    by (simp add: lwe_kernel_def prepare_toy cfg_toy len bs tour_flat_verbose)
qed

subsection \<open>The exits, on the whole kernel\<close>

text \<open>
  C8 (as amended). A normal return of \<open>lwe_kernel\<close> happens only with the goal
  reached (first Gram-Schmidt squared length at most the target norm), after writing
  the first basis row to \<open>lwechallenge/NNN-AAA-solution.txt\<close>, \<open>NNN\<close> and \<open>AAA\<close> being
  \<open>n\<close> and \<open>int(alpha * 1000)\<close> padded with zeros to three digits; as soon as the goal
  holds after the tours of a blocksize the kernel writes that file and returns; with
  no blocksize left it raises \<open>ValueError\<close>, "No solution found.". Any other end of
  the kernel is an exception raised before the loop (by \<open>prepare\<close>) or inside a tour.
\<close>

theorem lwe_kernel_exits:
  "(lwe_kernel E cfg n = Some (Inr S) \<longrightarrow>
      (\<exists>R. prepare E cfg n = Some (Inr R)
          \<and> get_r E (g6k (final S)) 0 \<le> run_target_norm R)
      \<and> filename S = ''lwechallenge/'' @ fmt_03d n @ ''-''
                       @ fmt_03d (py_int (lwe_alpha cfg * 1000)) @ ''-solution.txt''
      \<and> written S = row0 E (g6k (final S)))
   \<and> (tours_loop E cfg tn d bs b (nat (bkz_tours cfg)) st = Some (Inr st1)
        \<and> get_r E (g6k st1) 0 \<le> tn \<longrightarrow>
      blocks_loop E cfg n tn d bs (b # rest) st
        = Some (Inr \<lparr>filename = solution_filename n (lwe_alpha cfg),
                     written = row0 E (g6k st1), final = st1\<rparr>))
   \<and> blocks_loop E cfg n tn d bs [] st = Some (Inl (ValueError ''No solution found.''))
   \<and> (lwe_kernel E cfg n = Some (Inl e) \<longrightarrow>
        e = ValueError ''No solution found.''
        \<or> prepare E cfg n = Some (Inl e)
        \<or> (\<exists>R b1 st2. prepare E cfg n = Some (Inr R)
              \<and> tours_loop E cfg (run_target_norm R) (run_d R) (run_blocksizes R) b1
                    (nat (bkz_tours cfg)) st2 = Some (Inl e)))"
proof (intro conjI impI)
  assume ret: "lwe_kernel E cfg n = Some (Inr S)"
  then obtain R where R: "prepare E cfg n = Some (Inr R)"
    and loop: "blocks_loop E cfg n (run_target_norm R) (run_d R) (run_blocksizes R)
                 (run_blocksizes R) (run_start R) = Some (Inr S)"
    by (auto simp: lwe_kernel_def split: option.splits sum.splits)
  from blocks_loop_solved [OF loop]
  have goal: "get_r E (g6k (final S)) 0 \<le> run_target_norm R"
    and name: "filename S = solution_filename n (lwe_alpha cfg)"
    and body: "written S = row0 E (g6k (final S))"
    by simp_all
  show "\<exists>R. prepare E cfg n = Some (Inr R) \<and> get_r E (g6k (final S)) 0 \<le> run_target_norm R"
    using R goal by blast
  show "filename S = ''lwechallenge/'' @ fmt_03d n @ ''-''
                       @ fmt_03d (py_int (lwe_alpha cfg * 1000)) @ ''-solution.txt''"
    using name by (simp add: solution_filename_def)
  show "written S = row0 E (g6k (final S))" by (rule body)
next
  assume "tours_loop E cfg tn d bs b (nat (bkz_tours cfg)) st = Some (Inr st1)
        \<and> get_r E (g6k st1) 0 \<le> tn"
  then show "blocks_loop E cfg n tn d bs (b # rest) st
        = Some (Inr \<lparr>filename = solution_filename n (lwe_alpha cfg),
                     written = row0 E (g6k st1), final = st1\<rparr>)"
    by simp
next
  show "blocks_loop E cfg n tn d bs [] st = Some (Inl (ValueError ''No solution found.''))"
    by simp
next
  assume err: "lwe_kernel E cfg n = Some (Inl e)"
  show "e = ValueError ''No solution found.''
        \<or> prepare E cfg n = Some (Inl e)
        \<or> (\<exists>R b1 st2. prepare E cfg n = Some (Inr R)
              \<and> tours_loop E cfg (run_target_norm R) (run_d R) (run_blocksizes R) b1
                    (nat (bkz_tours cfg)) st2 = Some (Inl e))"
  proof (cases "prepare E cfg n")
    case None
    then show ?thesis using err by (simp add: lwe_kernel_def)
  next
    case (Some p)
    show ?thesis
    proof (cases p)
      case (Inl e')
      then show ?thesis using err Some by (simp add: lwe_kernel_def)
    next
      case (Inr R)
      then have "blocks_loop E cfg n (run_target_norm R) (run_d R) (run_blocksizes R)
                 (run_blocksizes R) (run_start R) = Some (Inl e)"
        using err Some by (simp add: lwe_kernel_def)
      from blocks_loop_errors [OF this] show ?thesis using Some Inr by blast
    qed
  qed
qed

text \<open>
  On \<open>won\<close> the first tour reaches the goal and the kernel returns with the file of
  instance \<open>040-005\<close>; with no tours at all on \<open>flat\<close> the schedule runs out.
\<close>

theorem lwe_kernel_exits_witness:
  "lwe_kernel (toy_env (Some (60, 50, 7)) won flat flat) toy_config 40
     = Some (Inr \<lparr>filename = ''lwechallenge/040-005-solution.txt'', written = ''[1 0 0]'',
          final = \<lparr>g6k = \<lparr>clock = 1, gso = won\<rparr>, params = SieverParams 1, T0_BKZ = 0,
                    T_blocksizes = [10 \<mapsto> 1]\<rparr>\<rparr>)
   \<and> get_r (toy_env (Some (60, 50, 7)) won flat flat) \<lparr>clock = 1, gso = won\<rparr> 0 \<le> toy_tn
   \<and> ''lwechallenge/040-005-solution.txt''
       = ''lwechallenge/'' @ fmt_03d 40 @ ''-'' @ fmt_03d (py_int (lwe_alpha toy_config * 1000))
         @ ''-solution.txt''
   \<and> lwe_kernel (toy_env (Some (60, 50, 7)) flat flat flat) (toy_config\<lparr>bkz_tours := 0\<rparr>) 40
       = Some (Inl (ValueError ''No solution found.''))"
proof -
  let ?E = "toy_env (Some (60, 50, 7)) won flat flat"
  let ?S = "\<lparr>filename = ''lwechallenge/040-005-solution.txt'', written = ''[1 0 0]'',
          final = \<lparr>g6k = \<lparr>clock = 1, gso = won\<rparr>, params = SieverParams 1, T0_BKZ = 0,
                    T_blocksizes = [10 \<mapsto> 1::real]\<rparr>\<rparr>"
  have run: "lwe_kernel ?E toy_config 40 = Some (Inr ?S)" by (rule lwe_kernel_won_run)
  have prep: "prepare ?E toy_config 40
   = Some (Inr \<lparr>run_target_norm = toy_tn, run_blocksizes = default_blocksizes 60,
                run_d = int (length won),
                run_start = \<lparr>g6k = \<lparr>clock = 0, gso = won\<rparr>, params = SieverParams 1,
                             T0_BKZ = 0, T_blocksizes = Map.empty\<rparr>\<rparr>)"
    by (rule prepare_toy) (simp_all add: cfg_toy)
  from lwe_kernel_exits [of ?E toy_config 40 ?S] run prep lwe_kernel_no_tours_run
  show ?thesis by auto
qed

text \<open>
  When the estimator has no parameters the kernel ends with \<open>TypeError\<close>, "No winning
  parameters." (lines 120-121): neither a return nor the "no solution" error.
\<close>

theorem lwe_kernel_third_exit_counterexample:
  "lwe_kernel (toy_env None flat flat flat) toy_config 40
     = Some (Inl (TypeError ''No winning parameters.''))
   \<and> TypeError ''No winning parameters.'' \<noteq> ValueError ''No solution found.''"
  using lwe_kernel_no_parameters by simp

subsection \<open>The enlarged SVP call, concretely\<close>



lemma sum_list_spike:
  "distinct xs \<Longrightarrow> sum_list (map (\<lambda>i::int. if i = 0 then (4::real) else 0) xs)
     = (if 0 \<in> set xs then 4 else 0)"
  by (induction xs) auto

lemma get_r_spike:
  "get_r (toy_env est s0 sim pmp) \<lparr>clock = c, gso = spike\<rparr> = (\<lambda>i. if i = 0 then 4 else 0)"
proof
  fix i :: int
  have "\<And>k. k < 12 \<Longrightarrow> spike ! k = (if k = 0 then 4 else 0)"
    by (simp add: spike_def nth_Cons')
  moreover have "length spike = 12" by (simp add: spike_def)
  ultimately show "get_r (toy_env est s0 sim pmp) \<lparr>clock = c, gso = spike\<rparr> i
        = (if i = 0 then 4 else 0)"
    by (auto simp: toy_env_def)
qed

lemma window_spike:
  assumes "j \<le> 2"
  shows "window_test (toy_env est s0 sim pmp) \<lparr>clock = c, gso = spike\<rparr> toy_tn 12 j"
proof -
  define a :: real where "a = of_int (12 - j)"
  have a: "10 \<le> a" using assms by (simp add: a_def)
  have len: "real (length [j..12 - 1]) = a" using assms by (simp add: a_def)
  have "sum_list (map (\<lambda>i::int. if i = 0 then (4::real) else 0) [j..12 - 1]) \<le> 4"
    by (simp add: sum_list_spike)
  then have "mean_gh (map (\<lambda>i::int. if i = 0 then (4::real) else 0) [j..12 - 1]) \<le> 4 / a"
    using a len by (simp add: mean_gh_def divide_right_mono)
  moreover have "4 / a < toy_tn * a / (1 * of_int 12)"
  proof -
    have "10 * 10 \<le> a * a" using a by (intro mult_mono) simp_all
    then have "48 < a * a" by simp
    moreover have "a * a \<le> toy_tn * a * a"
      using a by (simp add: toy_tn_val)
    ultimately have "48 < toy_tn * a * a" by linarith
    then have "4 * 12 < toy_tn * a * a" by simp
    then show ?thesis using a by (simp add: field_simps)
  qed
  ultimately show ?thesis
    by (simp add: window_test_def get_r_spike gh_toy a_def)
qed


text \<open>The same on the whole kernel: a run with \<open>verbose\<close> on that escalates and never ends.\<close>

lemma profile_spike: "profile (toy_env est s0 sim pmp) 12 \<lparr>clock = c, gso = spike\<rparr> = spike"
  by (simp add: profile_def toy_env_def spike_def upto_rec1)

lemma esd_spike: "expected_successful_SVP_dim mean_gh toy_tn (3 / 2) 12 spike = Inr 11"
  by (simp add: expected_successful_SVP_dim_def success_test_def py_div_def mean_gh_def
      toy_tn_val spike_def upto_rec1)

lemma lookahead_spike:
  assumes gm: "lwe_goal_margin cfg = 3 / 2"
  shows "lookahead (toy_env est s0 spike pmp) cfg toy_tn 12 (10 # 11 # 12 # bs) 10 11
     \<lparr>g6k = \<lparr>clock = c, gso = spike\<rparr>, params = p, T0_BKZ = t0, T_blocksizes = [10 \<mapsto> T]\<rparr>
   = Inr (False, \<lparr>g6k = \<lparr>clock = c, gso = spike\<rparr>, params = BKZParam 12 1, T0_BKZ = t0,
        T_blocksizes = [10 \<mapsto> T, 11 \<mapsto> T * 2 powr (expo * of_int (11 - 10)),
           12 \<mapsto> T * 2 powr (expo * of_int (11 - 10)) * 2 powr (expo * of_int (12 - 11))]\<rparr>)"
  by (simp add: lookahead_def profile_spike gh_toy sim_toy esd_spike Let_def gm)

lemma larger_SVP_spike:
  "larger_SVP (toy_env est s0 sim pmp) cfg toy_tn 12 10 n
     \<lparr>g6k = \<lparr>clock = c, gso = spike\<rparr>, params = p, T0_BKZ = t0, T_blocksizes = tb\<rparr> = None"
proof -
  have "shrink_llb (toy_env est s0 sim pmp) \<lparr>clock = c, gso = spike\<rparr> toy_tn 12 (12 - 10) = None"
    by (rule shrink_llb_diverges) (simp add: window_spike)
  then show ?thesis by (simp add: larger_SVP_def)
qed

lemma tour_spike:
  "tour (toy_env est s0 spike pmp) toy_config toy_tn 12 (10 # 11 # 12 # bs) 10
     \<lparr>g6k = \<lparr>clock = 0, gso = spike\<rparr>, params = SieverParams 1, T0_BKZ = 0,
      T_blocksizes = Map.empty\<rparr> = None"
proof -
  let ?E = "toy_env est s0 spike pmp"
  have sel: "now ?E = clock" "lll ?E = (\<lambda>w. w)"
    "fpylll_tour ?E = (\<lambda>b w. w\<lparr>clock := clock w + 1\<rparr>)"
    "get_r ?E \<lparr>clock = k, gso = spike\<rparr> 0 = 4" for k
    by (simp_all add: toy_env_def spike_def)
  have cfg: "bkz_fpylll_crossover toy_config = 51" "lwe_svp_bkz_time_factor toy_config = 1"
    by (simp_all add: toy_config_def)
  have big: "\<not> (4 \<le> toy_tn)" by (simp add: toy_tn_val)
  show ?thesis
    by (simp add: tour_def Let_def sel cfg big attainable_one profile_spike gh_toy esd_spike
        goal_margin_toy lookahead_spike larger_SVP_spike)
qed

lemma lwe_kernel_endless_run:
  "lwe_kernel (toy_env (Some (60, 50, 7)) spike spike spike) toy_config 40 = None"
proof -
  obtain bs where bs: "default_blocksizes 60 = 10 # 11 # 12 # bs"
    using schedule_head by blast
  have len: "int (length spike) = 12" by (simp add: spike_def)
  show ?thesis
    by (simp add: lwe_kernel_def prepare_toy cfg_toy len bs tour_spike)
qed

lemma tour_flat_first_schedule:
  "tour (toy_env (Some (60, 50, 7)) flat flat flat) quiet_config toy_tn 12
     (default_blocksizes 60) 10 start_flat
   = Some (Inr (Next, \<lparr>g6k = \<lparr>clock = 2, gso = flat\<rparr>, params = BKZParam 12 1, T0_BKZ = 2,
        T_blocksizes = [10 \<mapsto> 1, 11 \<mapsto> 1 * 2 powr (expo * of_int (11 - 10)),
           12 \<mapsto> 1 * 2 powr (expo * of_int (11 - 10)) * 2 powr (expo * of_int (12 - 11))]\<rparr>))"
proof -
  obtain bs where bs: "default_blocksizes 60 = 10 # 11 # 12 # bs"
    using schedule_head by blast
  show ?thesis unfolding bs start_flat_def by (rule tour_flat_first)
qed

subsection \<open>What the lookahead leaves behind\<close>

text \<open>
  C3. In the run on \<open>flat\<close> with \<open>verbose\<close> off, the first tour reaches the
  lookahead; line 242 rebinds \<open>params\<close>, so after that tour the name holds
  \<open>BKZ.Param(block_size=12, max_loops=1)\<close> and no longer the run configuration the
  siever was built from. The next call of \<open>attainable_SVP_dim\<close> reads \<open>threads\<close> from
  that object, and the run ends with \<open>AttributeError\<close> in its second tour.
  (\<open>lookahead_rebinds_params\<close> above: every lookahead that returns with a blocksize
  left to look at leaves \<open>params\<close> bound to a \<open>BKZ.Param\<close>.)
\<close>

theorem params_rebound_by_lookahead:
  "lwe_kernel (toy_env (Some (60, 50, 7)) flat flat flat) quiet_config 40
     = Some (Inl (AttributeError ''threads''))
   \<and> params start_flat = SieverParams (threads quiet_config)
   \<and> (\<exists>st1. tour (toy_env (Some (60, 50, 7)) flat flat flat) quiet_config toy_tn 12
               (default_blocksizes 60) 10 start_flat = Some (Inr (Next, st1))
          \<and> params st1 = BKZParam 12 1
          \<and> attainable_SVP_dim (lwe_svp_bkz_time_factor quiet_config) (params st1) 1
              = Inl (AttributeError ''threads''))"
proof -
  have "params start_flat = SieverParams (threads quiet_config)"
    by (simp add: start_flat_def cfg_quiet)
  moreover have "attainable_SVP_dim (lwe_svp_bkz_time_factor quiet_config) (BKZParam 12 1) 1
              = Inl (AttributeError ''threads'')"
    by (simp add: attainable_SVP_dim_def)
  ultimately show ?thesis
    using lwe_kernel_quiet_run tour_flat_first_schedule by simp
qed

text \<open>
  C4. In the same run the table is empty at the start and only blocksize ten has been
  run when the first tour ends; the table then also holds entries for blocksizes
  eleven and twelve, the extrapolations \<open>T(10) * 2 powr C\<close> and
  \<open>T(10) * 2 powr C * 2 powr C\<close> written through the alias \<open>temp_T_blocksizes\<close>.
  (\<open>lookahead_stores_extrapolations\<close> above: after every lookahead that returns,
  the table has an entry for each blocksize it looked at.)
\<close>

theorem extrapolated_times_stored:
  "T_blocksizes start_flat = Map.empty
   \<and> (\<exists>st1. tour (toy_env (Some (60, 50, 7)) flat flat flat) quiet_config toy_tn 12
               (default_blocksizes 60) 10 start_flat = Some (Inr (Next, st1))
          \<and> T_blocksizes st1 10 = Some 1
          \<and> T_blocksizes st1 11 = Some (1 * 2 powr (expo * of_int (11 - 10)))
          \<and> T_blocksizes st1 12
              = Some (1 * 2 powr (expo * of_int (11 - 10)) * 2 powr (expo * of_int (12 - 11))))"
proof -
  have "T_blocksizes start_flat = Map.empty" by (simp add: start_flat_def)
  then show ?thesis using tour_flat_first_schedule by simp
qed

lemma profile_steep: "profile (toy_env est s0 sim pmp) 12 \<lparr>clock = c, gso = steep\<rparr> = steep"
  by (simp add: profile_def toy_env_def steep_def upto_rec1)

lemma esd_steep: "expected_successful_SVP_dim mean_gh toy_tn (3 / 2) 12 steep = Inr 6"
  by (simp add: expected_successful_SVP_dim_def success_test_def py_div_def mean_gh_def
      toy_tn_val steep_def upto_rec1)

lemma esd_better: "expected_successful_SVP_dim mean_gh toy_tn (3 / 2) 12 better = Inr 2"
  by (simp add: expected_successful_SVP_dim_def success_test_def py_div_def mean_gh_def
      toy_tn_val better_def upto_rec1)

lemma lookahead_steep:
  "lookahead (toy_env est s0 better pmp) toy_config toy_tn 12 (default_blocksizes 60) 10 6
     evaluate_steep = Inl (AttributeError ''threads'')"
proof -
  obtain bs where bs: "default_blocksizes 60 = 10 # 11 # 12 # bs"
    using schedule_head by blast
  show ?thesis
    unfolding bs evaluate_steep_def
    by (simp add: lookahead_def profile_steep gh_toy sim_toy esd_better Let_def cfg_toy)
qed

lemma saving_exceeds_extra:
  "(1 / 1048576) * 2 powr (expo * of_int (11 - 10))
   < (1 - 2 powr (expo * of_int (2 - 6))) * (2 powr (expo * of_int (6 - 64)) / of_int 1)"
proof -
  have A: "2 powr (expo * 1) < (2::real) powr 1"
    by (intro powr_less_mono) (simp_all add: expo_def)
  have "2 powr (expo * (- 4)) < (2::real) powr (- 1)"
    by (intro powr_less_mono) (simp_all add: expo_def)
  then have B: "2 powr (expo * (- 4)) < (1 / 2 :: real)"
    by (simp add: powr_minus)
  have "(2::real) powr (- 17) < 2 powr (expo * (- 58))"
    by (intro powr_less_mono) (simp_all add: expo_def)
  moreover have "(2::real) powr (- 17) = 1 / 131072"
    by (simp add: powr_minus powr_numeral field_simps)
  ultimately have C: "1 / 131072 < 2 powr (expo * (- 58))" by simp
  have lhs: "(1 / 1048576) * 2 powr (expo * 1) < (1 / 524288 :: real)"
    using A by simp
  have "(1 / 2) * (1 / 131072) < (1 - 2 powr (expo * (- 4))) * 2 powr (expo * (- 58))"
    using B C by (intro mult_strict_mono) simp_all
  then have rhs: "1 / 262144 < (1 - 2 powr (expo * (- 4))) * 2 powr (expo * (- 58))"
    by simp
  have "(1 / 1048576) * 2 powr (expo * 1)
        < (1 - 2 powr (expo * (- 4))) * 2 powr (expo * (- 58))"
    using lhs rhs by linarith
  then show ?thesis by simp
qed

text \<open>
  C1. At \<open>evaluate_steep\<close> the current success dimension is six, the simulated one
  is two (\<open>\<Delta> = 4\<close>), and the extrapolated extra time of the first lookahead step is
  below \<open>(1 - 2 powr (- C * \<Delta>)) * 2 powr (C * (6 - 64)) / threads\<close> for the one thread of
  the run configuration: the rule of the claim asks for more reduction. The lookahead
  instead ends with \<open>AttributeError\<close>, because line 263 reads \<open>threads\<close> from the
  \<open>BKZ.Param\<close> that line 242 bound to \<open>params\<close>. (\<open>lookahead_never_more\<close> above: no
  lookahead that returns ever asks for more reduction; \<open>more_BKZ_loop_rule\<close>: with a
  readable thread count the loop computes the rule of the claim.)
\<close>

theorem lookahead_raises_on_improvement:
  "expected_successful_SVP_dim mean_gh toy_tn (lwe_goal_margin toy_config) 12
       (profile (toy_env None steep better flat) 12 (g6k evaluate_steep)) = Inr 6
   \<and> expected_successful_SVP_dim mean_gh toy_tn (lwe_goal_margin toy_config) 12 better = Inr 2
   \<and> (1 / 1048576) * 2 powr (expo * of_int (11 - 10))
       < (1 - 2 powr (expo * of_int (2 - 6))) * (2 powr (expo * of_int (6 - 64)) / of_int 1)
   \<and> lookahead (toy_env None steep better flat) toy_config toy_tn 12 (default_blocksizes 60)
        10 6 evaluate_steep = Inl (AttributeError ''threads'')"
proof -
  have "profile (toy_env None steep better flat) 12 (g6k evaluate_steep) = steep"
    by (simp add: evaluate_steep_def profile_steep)
  then have "expected_successful_SVP_dim mean_gh toy_tn (lwe_goal_margin toy_config) 12
       (profile (toy_env None steep better flat) 12 (g6k evaluate_steep)) = Inr 6"
    by (simp add: esd_steep cfg_toy)
  moreover have "expected_successful_SVP_dim mean_gh toy_tn (lwe_goal_margin toy_config) 12
       better = Inr 2"
    by (simp add: esd_better cfg_toy)
  ultimately show ?thesis
    using saving_exceeds_extra lookahead_steep by blast
qed

end
